theory Spec2Isabelle
  imports Main "HOL-Library.Word"
begin

unbundle bit_operations_syntax

section \<open>Fabric Capacity Extension: the popup controller (popup.js)\<close>

text \<open>
  A shallow embedding of class \<open>FabricCapacityManager\<close> of \<open>popup.js\<close>.
  JavaScript strings are modelled as HOL strings; tokens, fragment parameters and
  identifiers are ASCII text. Numbers that the code handles are integers below \<open>2^53\<close>
  (epoch milliseconds, status codes, indices) and are modelled as \<open>int\<close> or \<open>nat\<close>;
  \<open>NaN\<close> is \<open>None\<close>. Platform services (storage, network, the identity flow, the
  random source, the clock, \<open>JSON.parse\<close>) are explicit inputs.
\<close>

subsection \<open>Platform string and number functions\<close>

text \<open>\<open>Number.prototype.toString(radix)\<close> on a non-negative integer.\<close>

definition digit_char :: "nat \<Rightarrow> char" where
  "digit_char d = ''0123456789abcdefghijklmnopqrstuvwxyz'' ! d"

function toString_radix :: "nat \<Rightarrow> nat \<Rightarrow> string" where
  "toString_radix r n =
     (if n < r \<or> r < 2 then [digit_char n]
      else toString_radix r (n div r) @ [digit_char (n mod r)])"
  by pat_completeness auto
termination
  by (relation "measure snd") auto

declare toString_radix.simps [simp del]

text \<open>\<open>toString()\<close> on an integer.\<close>

definition toString :: "int \<Rightarrow> string" where
  "toString i = (if i < 0 then CHR ''-'' # toString_radix 10 (nat (- i))
                 else toString_radix 10 (nat i))"

text \<open>\<open>String.prototype.substr(-2)\<close>: the last two characters (all of a shorter string).\<close>

definition substr_last2 :: "string \<Rightarrow> string" where
  "substr_last2 s = drop (length s - 2) s"

text \<open>\<open>String.prototype.includes\<close> and \<open>startsWith\<close>.\<close>

definition startsWith :: "string \<Rightarrow> string \<Rightarrow> bool" where
  "startsWith s p = (take (length p) s = p)"

fun str_includes :: "string \<Rightarrow> string \<Rightarrow> bool" where
  "str_includes [] p = (p = [])"
| "str_includes (c # cs) p = (startsWith (c # cs) p \<or> str_includes cs p)"

text \<open>\<open>String.prototype.split(sep)\<close> for a one-character separator.\<close>

fun str_split :: "char \<Rightarrow> string \<Rightarrow> string list" where
  "str_split d [] = [[]]"
| "str_split d (c # cs) =
     (if c = d then [] # str_split d cs
      else (case str_split d cs of [] \<Rightarrow> [[c]] | p # ps \<Rightarrow> (c # p) # ps))"

text \<open>
  \<open>parseInt(string)\<close> with no radix argument: leading white space is skipped, an
  optional sign is read, a \<open>0x\<close>/\<open>0X\<close> prefix selects radix 16, and the longest run
  of digits is converted. \<open>None\<close> is \<open>NaN\<close> (no digit).
\<close>

definition isWhiteSpace :: "char \<Rightarrow> bool" where
  "isWhiteSpace c = ((of_char c :: nat) \<in> {9, 10, 11, 12, 13, 32, 160})"

definition digit_value :: "char \<Rightarrow> nat option" where
  "digit_value c =
     (let k = (of_char c :: nat) in
      if 48 \<le> k \<and> k \<le> 57 then Some (k - 48)
      else if 97 \<le> k \<and> k \<le> 122 then Some (k - 87)
      else if 65 \<le> k \<and> k \<le> 90 then Some (k - 55)
      else None)"

definition isDigit :: "nat \<Rightarrow> char \<Rightarrow> bool" where
  "isDigit r c = (case digit_value c of None \<Rightarrow> False | Some v \<Rightarrow> v < r)"

definition digits_value :: "nat \<Rightarrow> string \<Rightarrow> nat" where
  "digits_value r z = foldl (\<lambda>acc c. acc * r + the (digit_value c)) 0 z"

definition parseInt :: "string \<Rightarrow> int option" where
  "parseInt input =
     (let s = dropWhile isWhiteSpace input;
          neg = (s \<noteq> [] \<and> hd s = CHR ''-'');
          s1 = (if s \<noteq> [] \<and> (hd s = CHR ''-'' \<or> hd s = CHR ''+'') then tl s else s);
          hex = (take 2 s1 = ''0x'' \<or> take 2 s1 = ''0X'');
          r = (if hex then 16 else 10);
          s2 = (if hex then drop 2 s1 else s1);
          z = takeWhile (isDigit r) s2
      in if z = [] then None
         else Some (if neg then - int (digits_value r z) else int (digits_value r z)))"

subsection \<open>Anti-forgery state and token fingerprint\<close>

text \<open>
  \<open>generateState\<close>: the four words of the \<open>Uint32Array\<close> filled by
  \<open>crypto.getRandomValues\<close> are the argument.
\<close>

definition generateState :: "32 word list \<Rightarrow> string" where
  "generateState array =
     concat (map (\<lambda>dec. substr_last2 (CHR ''0'' # toString_radix 16 (unat dec))) array)"

text \<open>
  \<open>generateTokenHash\<close>: \<open>hash << 5\<close> and \<open>hash & hash\<close> keep the accumulator a
  32-bit signed integer, so the loop is arithmetic on \<open>32 word\<close>; \<open>Math.abs\<close> is taken
  of the signed reading.
\<close>

definition hash_step :: "32 word \<Rightarrow> char \<Rightarrow> 32 word" where
  "hash_step hash c = (push_bit 5 hash - hash) + of_nat (of_char c)"

definition generateTokenHash :: "string \<Rightarrow> string" where
  "generateTokenHash token =
     (if length token = 0 then toString 0
      else toString \<bar>sint (foldl hash_step 0 (take (min (length token) 100) token))\<bar>)"

subsection \<open>Credential store\<close>

record sessionInfo =
  cachedAt :: int
  tenantId :: "string option"
  userPrincipalName :: "string option"
  tokenHash :: string

text \<open>The three keys of \<open>chrome.storage.local\<close>; \<open>None\<close> is an absent key.\<close>

record storage =
  stored_accessToken :: "string option"
  stored_tokenExpiry :: "string option"
  stored_sessionInfo :: "sessionInfo option"

text \<open>JavaScript truthiness of an optional string: absent and empty are falsy.\<close>

definition truthy :: "string option \<Rightarrow> bool" where
  "truthy v = (case v of None \<Rightarrow> False | Some s \<Rightarrow> s \<noteq> [])"

definition bufferTime :: int where
  "bufferTime = 2 * 60 * 1000"

text \<open>
  \<open>getCachedToken\<close> (popup.js). Arguments: whether \<open>chrome.runtime.lastError\<close> is set
  in the storage callback, \<open>Date.now()\<close>, and the stored items. \<open>None\<close> is
  \<open>resolve(null)\<close>. A comparison with \<open>NaN\<close> is false.
\<close>

definition getCachedToken :: "bool \<Rightarrow> int \<Rightarrow> storage \<Rightarrow> string option" where
  "getCachedToken lastError now result =
     (if lastError then None
      else if \<not> truthy (stored_accessToken result) \<or> \<not> truthy (stored_tokenExpiry result)
      then None
      else if (case stored_sessionInfo result of
                 None \<Rightarrow> False
               | Some si \<Rightarrow> tokenHash si \<noteq> generateTokenHash (the (stored_accessToken result)))
      then None
      else if (case parseInt (the (stored_tokenExpiry result)) of
                 None \<Rightarrow> False
               | Some expiryTime \<Rightarrow> now \<ge> expiryTime - bufferTime)
      then None
      else stored_accessToken result)"

text \<open>
  \<open>getCachedToken\<close> of the earlier revision of popup.js: no session fingerprint, a
  five-minute buffer.
\<close>

definition bufferTime_rev1 :: int where
  "bufferTime_rev1 = 5 * 60 * 1000"

definition getCachedToken_rev1 :: "bool \<Rightarrow> int \<Rightarrow> storage \<Rightarrow> string option" where
  "getCachedToken_rev1 lastError now result =
     (if lastError then None
      else if \<not> truthy (stored_accessToken result) \<or> \<not> truthy (stored_tokenExpiry result)
      then None
      else if (case parseInt (the (stored_tokenExpiry result)) of
                 None \<Rightarrow> False
               | Some expiryTime \<Rightarrow> now \<ge> expiryTime - bufferTime_rev1)
      then None
      else stored_accessToken result)"

subsection \<open>Exceptions\<close>

text \<open>
  A thrown value or a rejected promise. \<open>Error\<close> is \<open>new Error(message)\<close> of popup.js;
  the others are raised by the platform (the argument is the platform's message);
  \<open>LastError\<close> is the \<open>chrome.runtime.lastError\<close> object, rejected as it is.
\<close>

datatype error =
    Error string
  | TypeError string
  | SyntaxError string
  | InvalidCharacterError string
  | URIError string
  | LastError string

fun message :: "error \<Rightarrow> string" where
  "message (Error m) = m"
| "message (TypeError m) = m"
| "message (SyntaxError m) = m"
| "message (InvalidCharacterError m) = m"
| "message (URIError m) = m"
| "message (LastError m) = m"

subsection \<open>Decoding the claims of a bearer token\<close>

text \<open>
  \<open>atob\<close> (forgiving base64 decoding): ASCII white space is removed, one or two
  trailing \<open>=\<close> are dropped when the length is a multiple of four, a length of
  \<open>1 mod 4\<close> or a character outside the alphabet fails (\<open>None\<close>).
\<close>

definition b64_value :: "char \<Rightarrow> nat option" where
  "b64_value c =
     (let k = (of_char c :: nat) in
      if 65 \<le> k \<and> k \<le> 90 then Some (k - 65)
      else if 97 \<le> k \<and> k \<le> 122 then Some (k - 71)
      else if 48 \<le> k \<and> k \<le> 57 then Some (k + 4)
      else if c = CHR ''+'' then Some 62
      else if c = CHR ''/'' then Some 63
      else None)"

fun b64_bytes :: "nat list \<Rightarrow> nat list" where
  "b64_bytes (a # b # c # d # rest) =
     (let n = ((a * 64 + b) * 64 + c) * 64 + d
      in [n div 65536, n div 256 mod 256, n mod 256] @ b64_bytes rest)"
| "b64_bytes [a, b, c] = (let n = ((a * 64 + b) * 64 + c) div 4 in [n div 256, n mod 256])"
| "b64_bytes [a, b] = [(a * 64 + b) div 16]"
| "b64_bytes _ = []"

definition atob :: "string \<Rightarrow> string option" where
  "atob data =
     (let d = filter (\<lambda>c. (of_char c :: nat) \<notin> {9, 10, 12, 13, 32}) data;
          d1 = (if length d mod 4 = 0
                then (if take 2 (rev d) = ''==''  then butlast (butlast d)
                      else if take 1 (rev d) = ''='' then butlast d
                      else d)
                else d)
      in if length d1 mod 4 = 1 \<or> (\<exists>c \<in> set d1. b64_value c = None) then None
         else Some (map char_of (b64_bytes (map (\<lambda>c. the (b64_value c)) d1))))"

text \<open>\<open>String.prototype.replace(/x/g, y)\<close> for single characters.\<close>

definition replace_all :: "char \<Rightarrow> char \<Rightarrow> string \<Rightarrow> string" where
  "replace_all x y s = map (\<lambda>c. if c = x then y else c) s"

text \<open>
  The \<open>try\<close> block of \<open>decodeJwtToken\<close>. \<open>JSON_parse\<close> is the platform's
  \<open>JSON.parse\<close>: \<open>Inl\<close> when it throws, \<open>Inr None\<close> when the text denotes
  \<open>null\<close>. \<open>Inl\<close> is an exception raised inside the block, \<open>Inr None\<close> is
  \<open>return null\<close>.
\<close>

definition decodeJwtToken_try ::
  "(string \<Rightarrow> error + 'j option) \<Rightarrow> string \<Rightarrow> error + 'j option" where
  "decodeJwtToken_try JSON_parse token =
     (let parts = str_split (CHR ''.'') token in
      if length parts \<noteq> 3 then Inr None
      else
        let payload = parts ! 1;
            paddedPayload = payload @ replicate ((4 - length payload mod 4) mod 4) (CHR ''='')
        in case atob (replace_all (CHR ''_'') (CHR ''/'')
                       (replace_all (CHR ''-'') (CHR ''+'') paddedPayload)) of
             None \<Rightarrow> Inl (InvalidCharacterError ''The string to be decoded is not correctly encoded.'')
           | Some decodedPayload \<Rightarrow> JSON_parse decodedPayload)"

text \<open>\<open>decodeJwtToken\<close>: the \<open>catch\<close> clause returns \<open>null\<close> for every exception.\<close>

definition decodeJwtToken ::
  "(string \<Rightarrow> error + 'j option) \<Rightarrow> string \<Rightarrow> error + 'j option" where
  "decodeJwtToken JSON_parse token =
     (case decodeJwtToken_try JSON_parse token of
        Inl error \<Rightarrow> Inr None
      | Inr tokenData \<Rightarrow> Inr tokenData)"

subsection \<open>The authorization response\<close>

text \<open>
  The response URL handed to the \<open>launchWebAuthFlow\<close> callback, as
  \<open>new URL(responseUrl)\<close> and \<open>new URLSearchParams(url.hash.substring(1))\<close> read it:
  \<open>InvalidUrl\<close> when the constructor throws, otherwise the fragment's parameters in
  order. \<open>params.get\<close> returns the first value of a name.
\<close>

datatype responseUrl = InvalidUrl | Url "(string \<times> string) list"

definition params_get :: "(string \<times> string) list \<Rightarrow> string \<Rightarrow> string option" where
  "params_get params name = map_of params name"

record tokenInfo =
  ti_accessToken :: string
  ti_expiresIn :: "int option"
  ti_tokenType :: "string option"

text \<open>
  \<open>extractTokenFromUrl\<close>. \<open>decodeURIComponent\<close> is the platform function (it throws
  on a malformed escape). In \<open>expiresIn\<close>, \<open>None\<close> is \<open>NaN\<close>.
\<close>

definition extractTokenFromUrl ::
  "(string \<Rightarrow> error + string) \<Rightarrow> responseUrl \<Rightarrow> string \<Rightarrow> error + tokenInfo" where
  "extractTokenFromUrl decodeURIComponent responseUrl expectedState =
     (case responseUrl of
        InvalidUrl \<Rightarrow> Inl (TypeError ''Invalid URL'')
      | Url params \<Rightarrow>
          if params_get params ''state'' \<noteq> Some expectedState
          then Inl (Error ''State parameter mismatch - possible CSRF attack'')
          else if truthy (params_get params ''error'')
          then (case decodeURIComponent
                       (if truthy (params_get params ''error_description'')
                        then the (params_get params ''error_description'')
                        else ''Unknown error'') of
                  Inl e \<Rightarrow> Inl e
                | Inr description \<Rightarrow>
                    Inl (Error (''OAuth2 error: '' @ the (params_get params ''error'') @ '' - ''
                                @ description)))
          else if \<not> truthy (params_get params ''access_token'')
          then Inl (Error ''No access token found in OAuth2 response'')
          else Inr \<lparr>ti_accessToken = the (params_get params ''access_token''),
                    ti_expiresIn = (if truthy (params_get params ''expires_in'')
                                    then parseInt (the (params_get params ''expires_in''))
                                    else Some 3600),
                    ti_tokenType = params_get params ''token_type''\<rparr>)"

subsection \<open>The controller and its collaborators\<close>

text \<open>
  An element of a \<open>value\<close> array of the control plane (a subscription or a capacity),
  seen through the members popup.js reads: \<open>id\<close>, \<open>name\<close>,
  \<open>properties?.state\<close>, \<open>sku?.name\<close>, \<open>subscriptionId\<close>, \<open>displayName\<close>.
  \<open>None\<close> is \<open>undefined\<close>.
\<close>

record entity =
  e_id :: "string option"
  e_name :: string
  e_state :: "string option"
  e_sku :: "string option"
  e_subscriptionId :: string
  e_displayName :: string

text \<open>A value returned by \<open>JSON.parse\<close>, seen through the members popup.js reads.\<close>

record json =
  j_value :: "entity list option"
  j_tid :: "string option"
  j_upn :: "string option"
  j_unique_name :: "string option"

text \<open>What \<open>makeApiCall\<close> returns: \<open>{ success: true }\<close>, \<open>{}\<close>, or the parsed body.\<close>

datatype apiResult = SuccessMarker | EmptyObject | Parsed "json option"

record request =
  req_url :: string
  req_method :: string
  req_authorization :: string
  req_body :: "string option"

record response =
  r_status :: nat
  r_statusText :: string
  r_text :: string

text \<open>A call of \<open>chrome.identity.launchWebAuthFlow\<close> and what its callback receives.\<close>

record authRequest =
  a_scope :: string
  a_state :: string
  a_interactive :: bool

datatype flowResult = FlowLastError string | NoResponseUrl | ResponseUrl responseUrl

datatype logLine = Info string | Failure string "string option" | Success string

datatype timer = SilentRefreshTimer string nat | RefreshTimer nat | RefreshReselectTimer nat

text \<open>
  The fields of \<open>FabricCapacityManager\<close> and of the popup's elements that the modelled
  methods read or write, followed by the collaborators: the stored items, the clock, the
  network (the answer to the \<open>i\<close>-th \<open>fetch\<close>, counted over all requests), the identity
  provider (the answer to the \<open>i\<close>-th \<open>launchWebAuthFlow\<close>), the random source, the
  answer to \<open>confirm\<close>, and the platform's \<open>JSON.parse\<close> and
  \<open>decodeURIComponent\<close>. \<open>fetch_log\<close> and \<open>flow_log\<close> record the calls made.
  \<open>debugLog\<close> lines and the time stamps of log lines are left out; they influence no
  other field. The tenant label and the warning banner are elements outside the record.

  A method runs to its end with nothing interleaved, unless its suspension is modelled.
  \<open>updateTenantAndUserDisplay\<close> is started without \<open>await\<close>: the request it
  sends before it is suspended is sent within the method that starts it, the suspended
  task is kept in \<open>display_tasks\<close>, and it goes on in a step of its own,
  \<open>updateTenantAndUserDisplay_resume\<close>.
\<close>

text \<open>
  A suspended \<open>updateTenantAndUserDisplay\<close>: at \<open>await this.getUserInfo()\<close>, with its
  token and the index of the Graph request (\<open>None\<close> when \<open>getUserInfo\<close> sent none), or
  at the request of \<open>checkTokenCapabilities\<close>, with that request and its index.
\<close>

datatype display_task =
    AwaitingUserInfo string "nat option"
  | AwaitingCapabilities request nat

record manager =
  accessToken :: "string option"
  capacities :: "entity list"
  initialLoadComplete :: bool
  capacitySelect_value :: string
  capacitySelect_disabled :: bool
  startButton_disabled :: bool
  stopButton_disabled :: bool
  refreshButton_disabled :: bool
  updateSkuButton_disabled :: bool
  skuSelect_value :: string
  skuSelect_disabled :: bool
  skuContainer_display :: string
  loadingIndicator_display :: string
  logArea :: "logLine list"
  timers :: "timer list"
  display_tasks :: "display_task list"
  local_storage :: storage
  storage_lastError :: bool
  now :: int
  network :: "nat \<Rightarrow> request \<Rightarrow> error + response"
  fetch_log :: "request list"
  identity :: "nat \<Rightarrow> authRequest \<Rightarrow> flowResult"
  flow_log :: "authRequest list"
  random_words :: "nat \<Rightarrow> 32 word"
  random_calls :: nat
  confirm_answer :: bool
  JSON_parse :: "string \<Rightarrow> error + json option"
  decodeURIComponent :: "string \<Rightarrow> error + string"

definition baseUrl :: string where
  "baseUrl = ''https://management.azure.com''"

definition graphUrl :: string where
  "graphUrl = ''https://graph.microsoft.com''"

definition subscriptionApiVersion :: string where
  "subscriptionApiVersion = ''2022-12-01''"

definition fabricApiVersion :: string where
  "fabricApiVersion = ''2023-11-01''"

definition scopes :: "string list" where
  "scopes = [''https://management.core.windows.net/user_impersonation'',
             ''https://graph.microsoft.com/User.Read'',
             ''offline_access'']"

subsubsection \<open>Logging and small element updates\<close>

definition log :: "string \<Rightarrow> manager \<Rightarrow> manager" where
  "log m st = st\<lparr>logArea := logArea st @ [Info m]\<rparr>"

definition logError :: "string \<Rightarrow> error option \<Rightarrow> manager \<Rightarrow> manager" where
  "logError m e st = st\<lparr>logArea := logArea st @ [Failure m (map_option message e)]\<rparr>"

definition logSuccess :: "string \<Rightarrow> manager \<Rightarrow> manager" where
  "logSuccess m st = st\<lparr>logArea := logArea st @ [Success m]\<rparr>"

definition showLoading :: "bool \<Rightarrow> manager \<Rightarrow> manager" where
  "showLoading show st = st\<lparr>loadingIndicator_display := (if show then ''block'' else ''none'')\<rparr>"

text \<open>A template literal prints \<open>undefined\<close> and \<open>null\<close> by name.\<close>

definition str_of :: "string option \<Rightarrow> string" where
  "str_of v = (case v of None \<Rightarrow> ''undefined'' | Some s \<Rightarrow> s)"

text \<open>\<open>v || d\<close> on an optional string.\<close>

definition or_else :: "string option \<Rightarrow> string \<Rightarrow> string" where
  "or_else v d = (if truthy v then the v else d)"

text \<open>\<open>array[i]\<close> for \<open>i\<close> the result of \<open>parseInt\<close>: \<open>None\<close> is \<open>undefined\<close>.\<close>

definition array_get :: "'a list \<Rightarrow> int option \<Rightarrow> 'a option" where
  "array_get xs i =
     (case i of
        None \<Rightarrow> None
      | Some k \<Rightarrow> if 0 \<le> k \<and> k < int (length xs) then Some (xs ! nat k) else None)"

subsubsection \<open>Platform calls\<close>

text \<open>
  \<open>fetch\<close>: the request is logged when it is sent; the answer is the network's answer
  to the request with that index.
\<close>

definition fetch_issue :: "request \<Rightarrow> manager \<Rightarrow> nat \<times> manager" where
  "fetch_issue options st = (length (fetch_log st), st\<lparr>fetch_log := fetch_log st @ [options]\<rparr>)"

definition fetch :: "request \<Rightarrow> manager \<Rightarrow> (error + response) \<times> manager" where
  "fetch options st = (case fetch_issue options st of (i, st1) \<Rightarrow> (network st1 i options, st1))"

definition response_ok :: "response \<Rightarrow> bool" where
  "response_ok r = (200 \<le> r_status r \<and> r_status r \<le> 299)"

definition launchWebAuthFlow :: "authRequest \<Rightarrow> manager \<Rightarrow> flowResult \<times> manager" where
  "launchWebAuthFlow a st =
     (identity st (length (flow_log st)) a, st\<lparr>flow_log := flow_log st @ [a]\<rparr>)"

text \<open>\<open>generateState\<close> on the next four words of the random source.\<close>

definition generateState_next :: "manager \<Rightarrow> string \<times> manager" where
  "generateState_next st =
     (generateState (map (random_words st) [4 * random_calls st ..< 4 * random_calls st + 4]),
      st\<lparr>random_calls := random_calls st + 1\<rparr>)"

subsubsection \<open>Token lifecycle\<close>

text \<open>\<open>cacheToken\<close>: \<open>expiresInSeconds || 3600\<close> replaces \<open>NaN\<close> and \<open>0\<close>.\<close>

definition cacheToken :: "string \<Rightarrow> int option \<Rightarrow> manager \<Rightarrow> manager" where
  "cacheToken token expiresInSeconds st =
     (let expirySeconds = (case expiresInSeconds of
                             None \<Rightarrow> 3600
                           | Some n \<Rightarrow> if n = 0 then 3600 else n);
          expiryTime = now st + expirySeconds * 1000;
          tokenData = (case decodeJwtToken (JSON_parse st) token of
                         Inl e \<Rightarrow> None
                       | Inr d \<Rightarrow> d);
          sessionInfo = \<lparr>cachedAt = now st,
                         tenantId = (case tokenData of None \<Rightarrow> None | Some d \<Rightarrow> j_tid d),
                         userPrincipalName =
                           (case tokenData of
                              None \<Rightarrow> None
                            | Some d \<Rightarrow> if truthy (j_upn d) then j_upn d else j_unique_name d),
                         tokenHash = generateTokenHash token\<rparr>
      in st\<lparr>local_storage := \<lparr>stored_accessToken = Some token,
                                stored_tokenExpiry = Some (toString expiryTime),
                                stored_sessionInfo = Some sessionInfo\<rparr>\<rparr>)"

definition clearCachedAuth :: "manager \<Rightarrow> manager" where
  "clearCachedAuth st =
     st\<lparr>local_storage := \<lparr>stored_accessToken = None,
                             stored_tokenExpiry = None,
                             stored_sessionInfo = None\<rparr>\<rparr>"

definition validateToken :: "string \<Rightarrow> manager \<Rightarrow> bool \<times> manager" where
  "validateToken token st =
     (case fetch \<lparr>req_url = baseUrl @ ''/subscriptions?api-version='' @ subscriptionApiVersion
                             @ ''&$top=1'',
                  req_method = ''GET'',
                  req_authorization = ''Bearer '' @ token,
                  req_body = None\<rparr> st of
        (Inl error, st1) \<Rightarrow> (False, st1)
      | (Inr response, st1) \<Rightarrow> (response_ok response, st1))"

text \<open>\<open>attemptOAuth2WithScope\<close>: the interactive flow (\<open>prompt=select_account\<close>).\<close>

definition attemptOAuth2WithScope :: "string \<Rightarrow> manager \<Rightarrow> (error + tokenInfo) \<times> manager" where
  "attemptOAuth2WithScope scopeString st =
     (case generateState_next st of
        (state, st1) \<Rightarrow>
          (case launchWebAuthFlow
                  \<lparr>a_scope = scopeString, a_state = state, a_interactive = True\<rparr> st1 of
             (FlowLastError m, st2) \<Rightarrow>
               (Inl (LastError m), logError ''OAuth2 flow failed'' (Some (LastError m)) st2)
           | (NoResponseUrl, st2) \<Rightarrow>
               (Inl (Error ''No response URL received from OAuth2 flow''),
                logError ''OAuth2 flow failed''
                  (Some (Error ''No response URL received from OAuth2 flow'')) st2)
           | (ResponseUrl responseUrl, st2) \<Rightarrow>
               (case extractTokenFromUrl (decodeURIComponent st2) responseUrl state of
                  Inl error \<Rightarrow>
                    (Inl error,
                     logError ''Failed to extract token from response'' (Some error) st2)
                | Inr tokenInfo \<Rightarrow> (Inr tokenInfo, st2))))"

definition performOAuth2Flow :: "manager \<Rightarrow> (error + tokenInfo) \<times> manager" where
  "performOAuth2Flow st =
     (case attemptOAuth2WithScope (scopes ! 0) st of
        (Inr tokenInfo, st1) \<Rightarrow> (Inr tokenInfo, st1)
      | (Inl primaryError, st1) \<Rightarrow>
          (Inl primaryError,
           logError ''Authentication failed. Please ensure you have the required permissions.''
             None st1))"

text \<open>\<open>attemptSilentAuthWithScope\<close>: the non-interactive flow (\<open>prompt=none\<close>).\<close>

definition attemptSilentAuthWithScope ::
  "string \<Rightarrow> manager \<Rightarrow> (error + tokenInfo) \<times> manager" where
  "attemptSilentAuthWithScope scopeString st =
     (case generateState_next st of
        (state, st1) \<Rightarrow>
          (case launchWebAuthFlow
                  \<lparr>a_scope = scopeString, a_state = state, a_interactive = False\<rparr> st1 of
             (FlowLastError m, st2) \<Rightarrow> (Inl (Error m), st2)
           | (NoResponseUrl, st2) \<Rightarrow> (Inl (Error ''No response URL from silent auth''), st2)
           | (ResponseUrl responseUrl, st2) \<Rightarrow>
               (extractTokenFromUrl (decodeURIComponent st2) responseUrl state, st2)))"

text \<open>\<open>performSilentAuth\<close>: \<open>None\<close> is \<open>null\<close>; it never rejects.\<close>

definition performSilentAuth :: "manager \<Rightarrow> tokenInfo option \<times> manager" where
  "performSilentAuth st =
     (case attemptSilentAuthWithScope (scopes ! 0) st of
        (Inr tokenInfo, st1) \<Rightarrow> (Some tokenInfo, st1)
      | (Inl primaryError, st1) \<Rightarrow>
          (case attemptSilentAuthWithScope ''openid profile offline_access'' st1 of
             (Inr tokenInfo, st2) \<Rightarrow> (Some tokenInfo, st2)
           | (Inl fallbackError, st2) \<Rightarrow> (None, st2)))"

definition handleTokenExpiry :: "manager \<Rightarrow> string option \<times> manager" where
  "handleTokenExpiry st =
     (case performSilentAuth st of
        (Some tokenInfo, st1) \<Rightarrow>
          (Some (ti_accessToken tokenInfo),
           cacheToken (ti_accessToken tokenInfo) (ti_expiresIn tokenInfo)
             (st1\<lparr>accessToken := Some (ti_accessToken tokenInfo)\<rparr>))
      | (None, st1) \<Rightarrow> (None, clearCachedAuth (st1\<lparr>accessToken := None\<rparr>)))"

subsubsection \<open>The tenant and user display\<close>

text \<open>The request of \<open>getUserInfo\<close>, sent when a token is held.\<close>

definition getUserInfo_request :: "manager \<Rightarrow> request" where
  "getUserInfo_request st =
     \<lparr>req_url = graphUrl @ ''/v1.0/me'', req_method = ''GET'',
      req_authorization = ''Bearer '' @ the (accessToken st), req_body = None\<rparr>"

text \<open>
  \<open>updateTenantAndUserDisplay\<close> up to its first suspension.
  \<open>updateTenantDisplayFromToken\<close> writes the tenant label and catches every exception;
  \<open>getUserInfo\<close> resolves \<open>null\<close> at once without a token and sends the Graph request
  otherwise.
\<close>

definition updateTenantAndUserDisplay :: "string \<Rightarrow> manager \<Rightarrow> manager" where
  "updateTenantAndUserDisplay token st =
     (if \<not> truthy (accessToken st)
      then st\<lparr>display_tasks := display_tasks st @ [AwaitingUserInfo token None]\<rparr>
      else (case fetch_issue (getUserInfo_request st) st of
              (i, st1) \<Rightarrow>
                st1\<lparr>display_tasks := display_tasks st1 @ [AwaitingUserInfo token (Some i)]\<rparr>))"

text \<open>The request of \<open>checkTokenCapabilities\<close>.\<close>

definition checkTokenCapabilities_request :: "manager \<Rightarrow> request" where
  "checkTokenCapabilities_request st =
     \<lparr>req_url = baseUrl @ ''/subscriptions?api-version='' @ subscriptionApiVersion @ ''&$top=1'',
      req_method = ''GET'', req_authorization = ''Bearer '' @ the (accessToken st),
      req_body = None\<rparr>"

text \<open>
  The message of the result of \<open>checkTokenCapabilities\<close> for a settled request;
  \<open>None\<close> when \<open>hasManagementAccess\<close> is true.
\<close>

definition capability_message :: "error + response \<Rightarrow> string option" where
  "capability_message settled =
     (case settled of
        Inl error \<Rightarrow> Some ''Unable to verify token capabilities''
      | Inr response \<Rightarrow>
          if response_ok response then None
          else if r_status response = 403
          then Some ''Limited permissions - Admin consent may be required for full functionality''
          else Some (''Authentication issue: '' @ toString (int (r_status response)) @ '' ''
                     @ r_statusText response))"

text \<open>
  The task at position \<open>k\<close> of \<open>display_tasks\<close> goes on, its request having settled.
  After \<open>getUserInfo\<close> the label is composed from the Graph answer and the token (with
  \<open>upn\<close> and \<open>unique_name\<close> strings, as \<open>json\<close> has them, this block does not throw)
  and \<open>checkTokenCapabilities\<close> is called: without a token it resolves at once, otherwise
  it sends its request. The callback of \<open>then\<close> logs the message when
  \<open>hasManagementAccess\<close> is false; the warning sign of that line is written \<open>(!)\<close>.
\<close>

definition updateTenantAndUserDisplay_resume :: "nat \<Rightarrow> manager \<Rightarrow> manager" where
  "updateTenantAndUserDisplay_resume k st =
     (if length (display_tasks st) \<le> k then st
      else
        (case display_tasks st ! k of
           AwaitingUserInfo token sent \<Rightarrow>
             if \<not> truthy (accessToken st)
             then log ''(!)  No authentication token available''
                    (st\<lparr>display_tasks := take k (display_tasks st)
                                           @ drop (Suc k) (display_tasks st)\<rparr>)
             else (case fetch_issue (checkTokenCapabilities_request st) st of
                     (i, st1) \<Rightarrow>
                       st1\<lparr>display_tasks :=
                             (display_tasks st1)
                               [k := AwaitingCapabilities (checkTokenCapabilities_request st) i]\<rparr>)
         | AwaitingCapabilities options i \<Rightarrow>
             (let st1 = st\<lparr>display_tasks := take k (display_tasks st)
                                               @ drop (Suc k) (display_tasks st)\<rparr>
              in case capability_message (network st i options) of
                   None \<Rightarrow> st1
                 | Some m \<Rightarrow> log (''(!)  '' @ m) st1)))"

subsubsection \<open>Signing in\<close>

text \<open>
  \<open>authenticate\<close>: the \<open>catch\<close> clause logs and rethrows, the \<open>finally\<close> clause hides
  the loading indicator on every path.
\<close>

definition authenticate :: "manager \<Rightarrow> (error + string) \<times> manager" where
  "authenticate st =
     (let st1 = showLoading True (log ''Authenticating with Azure AD...'' st);
          cachedToken = getCachedToken (storage_lastError st1) (now st1) (local_storage st1);
          (valid, st2) = (if truthy cachedToken then validateToken (the cachedToken) st1
                          else (False, st1))
      in if truthy cachedToken \<and> valid
         then (Inr (the cachedToken),
               showLoading False
                 ((log ''Using cached authentication token''
                     (updateTenantAndUserDisplay (the cachedToken)
                        (st2\<lparr>accessToken := cachedToken\<rparr>)))
                    \<lparr>timers := timers st2 @ [SilentRefreshTimer (the cachedToken) 1000]\<rparr>))
         else (case performOAuth2Flow st2 of
                 (Inl error, st3) \<Rightarrow>
                   (Inl error, showLoading False (logError ''Authentication error'' (Some error) st3))
               | (Inr tokenInfo, st3) \<Rightarrow>
                   (Inr (ti_accessToken tokenInfo),
                    showLoading False
                      (log ''Authentication successful''
                         (cacheToken (ti_accessToken tokenInfo) (ti_expiresIn tokenInfo)
                            (updateTenantAndUserDisplay (ti_accessToken tokenInfo)
                               (st3\<lparr>accessToken := Some (ti_accessToken tokenInfo)\<rparr>)))))))"

subsubsection \<open>The API client\<close>

text \<open>\<open>text ? JSON.parse(text) : {}\<close>.\<close>

definition parse_text :: "response \<Rightarrow> manager \<Rightarrow> error + apiResult" where
  "parse_text r st =
     (if r_text r = [] then Inr EmptyObject
      else (case JSON_parse st (r_text r) of Inl e \<Rightarrow> Inl e | Inr v \<Rightarrow> Inr (Parsed v)))"

text \<open>
  What either retry branch of \<open>makeApiCall\<close> does with the retried response; the two
  branches differ in the message of the final error only.
\<close>

definition retry_result :: "string \<Rightarrow> string \<Rightarrow> response \<Rightarrow> manager \<Rightarrow> error + apiResult" where
  "retry_result failed method retryResponse st =
     (if \<not> response_ok retryResponse
      then (if r_status retryResponse = 403
            then Inl (Error ''Insufficient permissions. Admin consent may be required for full functionality.'')
            else Inl (Error (failed @ toString (int (r_status retryResponse)) @ '' ''
                              @ r_statusText retryResponse)))
      else if method = ''POST'' \<and> r_status retryResponse = 202 then Inr SuccessMarker
      else if method = ''PATCH'' \<and> (r_status retryResponse = 200 \<or> r_status retryResponse = 202)
      then Inr SuccessMarker
      else parse_text retryResponse st)"

text \<open>\<open>makeApiCall\<close> after its first \<open>await fetch(url, options)\<close> has settled.\<close>

definition makeApiCall_continue ::
  "request \<Rightarrow> string \<Rightarrow> error + response \<Rightarrow> manager \<Rightarrow> (error + apiResult) \<times> manager" where
  "makeApiCall_continue options method settled st =
     (case settled of
        Inl error \<Rightarrow> (Inl error, st)
      | Inr response \<Rightarrow>
          if \<not> response_ok response then
            if r_status response = 401 then
              (case handleTokenExpiry st of
                 (refreshedToken, st1) \<Rightarrow>
                   if truthy refreshedToken then
                     (case fetch (options\<lparr>req_authorization := ''Bearer '' @ the refreshedToken\<rparr>)
                             st1 of
                        (Inl error, st2) \<Rightarrow> (Inl error, st2)
                      | (Inr retryResponse, st2) \<Rightarrow>
                          (retry_result ''API call failed after retry: '' method retryResponse st2,
                           st2))
                   else
                     (case authenticate st1 of
                        (Inl error, st2) \<Rightarrow> (Inl error, st2)
                      | (Inr token, st2) \<Rightarrow>
                          (case fetch (options\<lparr>req_authorization :=
                                          ''Bearer '' @ (case accessToken st2 of
                                                           None \<Rightarrow> ''null''
                                                         | Some t \<Rightarrow> t)\<rparr>) st2 of
                             (Inl error, st3) \<Rightarrow> (Inl error, st3)
                           | (Inr retryResponse, st3) \<Rightarrow>
                               (retry_result ''API call failed after authentication retry: ''
                                  method retryResponse st3,
                                st3))))
            else if r_status response = 403 then
              (Inl (Error (''Insufficient permissions to perform this operation.''
                     @ (if str_includes (r_text response) ''admin consent''
                           \<or> str_includes (r_text response) ''consent''
                        then '' Admin consent may be required. Please contact your Azure administrator.''
                        else if str_includes (r_text response) ''RBAC''
                                \<or> str_includes (r_text response) ''role''
                        then '' You may need additional Azure RBAC permissions.''
                        else []))),
               st)
            else
              (Inl (Error (''API call failed: '' @ toString (int (r_status response)) @ '' ''
                           @ r_statusText response)),
               st)
          else if (method = ''POST'' \<or> method = ''PATCH'')
                  \<and> (r_status response = 200 \<or> r_status response = 202)
          then (Inr SuccessMarker, st)
          else (parse_text response st, st))"

definition makeApiCall ::
  "string \<Rightarrow> string \<Rightarrow> string option \<Rightarrow> manager \<Rightarrow> (error + apiResult) \<times> manager" where
  "makeApiCall url method body st =
     (if \<not> truthy (accessToken st) then (Inl (Error ''No access token available''), st)
      else
        let options = \<lparr>req_url = url, req_method = method,
                       req_authorization = ''Bearer '' @ the (accessToken st),
                       req_body = body\<rparr>
        in (case fetch options st of
              (settled, st1) \<Rightarrow> makeApiCall_continue options method settled st1))"

subsubsection \<open>Discovery\<close>

text \<open>\<open>response.value || []\<close>; reading a member of \<open>null\<close> throws.\<close>

definition value_or_empty :: "apiResult \<Rightarrow> error + entity list" where
  "value_or_empty response =
     (case response of
        SuccessMarker \<Rightarrow> Inr []
      | EmptyObject \<Rightarrow> Inr []
      | Parsed None \<Rightarrow> Inl (TypeError ''Cannot read properties of null (reading 'value')'')
      | Parsed (Some j) \<Rightarrow> (case j_value j of None \<Rightarrow> Inr [] | Some v \<Rightarrow> Inr v))"

definition getSubscriptions :: "manager \<Rightarrow> (error + entity list) \<times> manager" where
  "getSubscriptions st =
     (case makeApiCall (baseUrl @ ''/subscriptions?api-version='' @ subscriptionApiVersion)
             ''GET'' None st of
        (Inl error, st1) \<Rightarrow> (Inl error, st1)
      | (Inr response, st1) \<Rightarrow> (value_or_empty response, st1))"

text \<open>The annotation of a capacity with its subscription and its display label.\<close>

definition annotate :: "string \<Rightarrow> entity \<Rightarrow> entity" where
  "annotate subscriptionId capacity =
     capacity\<lparr>e_subscriptionId := subscriptionId,
               e_displayName := e_name capacity @ '' ('' @ or_else (e_state capacity) ''Unknown''
                                @ '')''\<rparr>"

definition getCapacitiesForSubscription ::
  "string \<Rightarrow> manager \<Rightarrow> (error + entity list) \<times> manager" where
  "getCapacitiesForSubscription subscriptionId st =
     (case makeApiCall (baseUrl @ ''/subscriptions/'' @ subscriptionId
                        @ ''/providers/Microsoft.Fabric/capacities?api-version=''
                        @ fabricApiVersion) ''GET'' None st of
        (r, st1) \<Rightarrow>
          (case (case r of Inl error \<Rightarrow> Inl error | Inr response \<Rightarrow> value_or_empty response) of
             Inr found \<Rightarrow> (Inr (map (annotate subscriptionId) found), st1)
           | Inl error \<Rightarrow>
               if str_includes (message error) ''404''
                  \<or> str_includes (message error) ''ResourceProviderNotRegistered''
               then (Inr [], st1)
               else (Inl error, st1)))"

text \<open>
  \<open>populateCapacityDropdown\<close>: every option but the first (\<open>Select a capacity...\<close>,
  value \<open>''\<close>) is removed and one option per capacity is added, its value the index.
  Removing the selected option leaves the first option selected.
\<close>

definition populateCapacityDropdown :: "manager \<Rightarrow> manager" where
  "populateCapacityDropdown st = st\<lparr>capacitySelect_value := []\<rparr>"

text \<open>
  \<open>onCapacitySelectionChange\<close>, with \<open>loadAvailableSkus\<close> and
  \<open>populateSkuDropdown\<close>, which select the option of the current sku and disable the
  update button.
\<close>

definition onCapacitySelectionChange :: "manager \<Rightarrow> (error + unit) \<times> manager" where
  "onCapacitySelectionChange st =
     (let selectedIndex = capacitySelect_value st in
      if selectedIndex = [] then
        (Inr (), st\<lparr>startButton_disabled := True, stopButton_disabled := True,
                    skuContainer_display := ''none''\<rparr>)
      else
        (case array_get (capacities st) (parseInt selectedIndex) of
           None \<Rightarrow> (Inl (TypeError ''Cannot read properties of undefined (reading 'properties')''), st)
         | Some capacity \<Rightarrow>
             (let state = or_else (e_state capacity) ''Unknown'';
                  currentSku = or_else (e_sku capacity) ''Unknown''
              in (Inr (),
                  log (''Selected capacity: '' @ e_name capacity @ '' ('' @ state @ '') - SKU: ''
                       @ or_else (e_sku capacity) ''Unknown'')
                    (st\<lparr>startButton_disabled := (state = ''Active''),
                        stopButton_disabled := (state = ''Paused''),
                        skuContainer_display := ''block'',
                        skuSelect_value := currentSku,
                        updateSkuButton_disabled := True\<rparr>)))))"

text \<open>The loop of \<open>loadCapacities\<close> over the subscriptions, with its inner \<open>try\<close>.\<close>

fun loadCapacities_loop :: "entity list \<Rightarrow> manager \<Rightarrow> manager" where
  "loadCapacities_loop [] st = st"
| "loadCapacities_loop (subscription # rest) st =
     (case getCapacitiesForSubscription (e_subscriptionId subscription) st of
        (Inr found, st1) \<Rightarrow>
          loadCapacities_loop rest (st1\<lparr>capacities := capacities st1 @ found\<rparr>)
      | (Inl error, st1) \<Rightarrow> loadCapacities_loop rest st1)"

definition loadCapacities :: "manager \<Rightarrow> manager" where
  "loadCapacities st =
     (let st1 = (showLoading True (log ''Loading Fabric capacities...'' st))\<lparr>capacities := []\<rparr>;
          (authenticated, st2) =
            (if \<not> truthy (accessToken st1)
             then (case authenticate
                          (log ''No authentication token available. Please authenticate first.''
                             st1) of
                     (Inl error, s) \<Rightarrow> (Inl error, s)
                   | (Inr token, s) \<Rightarrow> (Inr (), s))
             else (Inr (), st1))
      in case authenticated of
           Inl error \<Rightarrow> showLoading False (logError ''Failed to load capacities'' (Some error) st2)
         | Inr u \<Rightarrow>
             (case getSubscriptions st2 of
                (Inl error, st3) \<Rightarrow>
                  showLoading False (logError ''Failed to load capacities'' (Some error) st3)
              | (Inr subscriptions, st3) \<Rightarrow>
                  (let st4 = populateCapacityDropdown (loadCapacities_loop subscriptions st3)
                   in showLoading False
                        ((log (''Loaded '' @ toString (int (length (capacities st4)))
                               @ '' Fabric capacities'') st4)\<lparr>initialLoadComplete := True\<rparr>))))"

text \<open>\<open>[...new Set(xs)]\<close>: the distinct elements in order of first occurrence.\<close>

definition unique :: "'a list \<Rightarrow> 'a list" where
  "unique xs = rev (remdups (rev xs))"

text \<open>\<open>findIndex\<close>: \<open>None\<close> is \<open>-1\<close>.\<close>

fun findIndex :: "('a \<Rightarrow> bool) \<Rightarrow> 'a list \<Rightarrow> nat option" where
  "findIndex p [] = None"
| "findIndex p (x # xs) = (if p x then Some 0 else map_option Suc (findIndex p xs))"

text \<open>The loop of \<open>refreshCapacities\<close> over the known subscription ids.\<close>

fun refreshCapacities_loop ::
  "string list \<Rightarrow> entity list \<Rightarrow> manager \<Rightarrow> entity list \<times> manager" where
  "refreshCapacities_loop [] refreshedCapacities st = (refreshedCapacities, st)"
| "refreshCapacities_loop (subscriptionId # rest) refreshedCapacities st =
     (case getCapacitiesForSubscription subscriptionId st of
        (Inr found, st1) \<Rightarrow> refreshCapacities_loop rest (refreshedCapacities @ found) st1
      | (Inl error, st1) \<Rightarrow> refreshCapacities_loop rest refreshedCapacities st1)"

text \<open>
  \<open>refreshCapacities\<close>. The \<open>finally\<close> clause re-enables the dropdown and the refresh
  button on every path that entered the \<open>try\<close> block.
\<close>

definition refreshCapacities :: "manager \<Rightarrow> manager" where
  "refreshCapacities st =
     (if \<not> truthy (accessToken st) then loadCapacities st
      else if loadingIndicator_display st = ''block'' then st
      else
        let selectedIndex = capacitySelect_value st;
            selectedCapacityId =
              (if selectedIndex \<noteq> []
               then (case array_get (capacities st) (parseInt selectedIndex) of
                       None \<Rightarrow> None
                     | Some c \<Rightarrow> e_id c)
               else None);
            st1 = st\<lparr>capacitySelect_disabled := True, refreshButton_disabled := True,
                      skuContainer_display := ''none''\<rparr>;
            subscriptionIds = unique (map e_subscriptionId (capacities st1))
        in if length subscriptionIds = 0
           then (loadCapacities st1)\<lparr>capacitySelect_disabled := False,
                                      refreshButton_disabled := False\<rparr>
           else
             (case refreshCapacities_loop subscriptionIds [] st1 of
                (refreshedCapacities, st2) \<Rightarrow>
                  (let st3 = populateCapacityDropdown (st2\<lparr>capacities := refreshedCapacities\<rparr>);
                       st4 =
                         (if truthy selectedCapacityId
                          then (case findIndex (\<lambda>c. e_id c = selectedCapacityId) (capacities st3) of
                                  None \<Rightarrow> st3
                                | Some newIndex \<Rightarrow>
                                    (case onCapacitySelectionChange
                                            (st3\<lparr>capacitySelect_value :=
                                                    toString (int newIndex)\<rparr>) of
                                       (Inr u, s) \<Rightarrow> s
                                     | (Inl error, s) \<Rightarrow>
                                         logError ''Failed to refresh capacities'' (Some error) s))
                          else st3)
                   in st4\<lparr>capacitySelect_disabled := False, refreshButton_disabled := False\<rparr>)))"

subsubsection \<open>Mutation\<close>

definition setButtonsEnabled :: "bool \<Rightarrow> manager \<Rightarrow> (error + unit) \<times> manager" where
  "setButtonsEnabled enabled st =
     (if enabled
      then (case onCapacitySelectionChange st of
              (Inl error, st1) \<Rightarrow> (Inl error, st1)
            | (Inr u, st1) \<Rightarrow> (Inr (), st1\<lparr>refreshButton_disabled := False\<rparr>))
      else (Inr (), st\<lparr>startButton_disabled := True, stopButton_disabled := True,
                        refreshButton_disabled := True\<rparr>))"

text \<open>
  An \<open>async\<close> method either runs to its end or is suspended at the \<open>await\<close> of a
  request it has sent; the suspended method keeps its local \<open>capacity\<close> and the
  request, and goes on when the request with that index has settled.
\<close>

datatype phase =
    Returned "error + unit" manager
  | AwaitingFetch entity request nat manager

text \<open>
  The \<open>catch\<close> and \<open>finally\<close> clauses of \<open>performCapacityOperation\<close>, entered with
  the outcome of the \<open>try\<close> block. An exception of the \<open>finally\<close> clause replaces
  the pending one.
\<close>

definition performCapacityOperation_finally ::
  "string \<Rightarrow> entity \<Rightarrow> error + unit \<Rightarrow> manager \<Rightarrow> (error + unit) \<times> manager" where
  "performCapacityOperation_finally operation capacity tried st =
     (let st1 = (case tried of
                   Inr u \<Rightarrow> st
                 | Inl error \<Rightarrow>
                     logError (''Failed to '' @ operation @ '' capacity '' @ e_name capacity)
                       (Some error) st)
      in case setButtonsEnabled True st1 of
           (Inl error, st2) \<Rightarrow> (Inl error, st2)
         | (Inr u, st2) \<Rightarrow> (Inr (), st2))"

text \<open>
  \<open>performCapacityOperation\<close> up to the request of \<open>makeApiCall\<close>. With no capacity at
  the selected index, \<open>capacity.name\<close> throws in the \<open>try\<close> block, again in the
  \<open>catch\<close> clause, and \<open>onCapacitySelectionChange\<close> throws in the \<open>finally\<close>
  clause before it changes an element.
\<close>

definition performCapacityOperation_begin :: "string \<Rightarrow> string \<Rightarrow> manager \<Rightarrow> phase" where
  "performCapacityOperation_begin operation operationName st =
     (let selectedIndex = capacitySelect_value st in
      if selectedIndex = [] then Returned (Inr ()) st
      else
        (case array_get (capacities st) (parseInt selectedIndex) of
           None \<Rightarrow>
             Returned (Inl (TypeError ''Cannot read properties of undefined (reading 'properties')''))
               st
         | Some capacity \<Rightarrow>
             (case setButtonsEnabled False
                     (log (operationName @ '' capacity '' @ e_name capacity @ ''...'') st) of
                (u, st1) \<Rightarrow>
                  if \<not> truthy (accessToken st1)
                  then (case performCapacityOperation_finally operation capacity
                               (Inl (Error ''No access token available'')) st1 of
                          (r, st2) \<Rightarrow> Returned r st2)
                  else
                    (let options =
                           \<lparr>req_url = baseUrl @ str_of (e_id capacity) @ ''/'' @ operation
                                        @ ''?api-version='' @ fabricApiVersion,
                            req_method = ''POST'',
                            req_authorization = ''Bearer '' @ the (accessToken st1),
                            req_body = None\<rparr>
                     in case fetch_issue options st1 of
                          (i, st2) \<Rightarrow> AwaitingFetch capacity options i st2))))"

text \<open>\<open>performCapacityOperation\<close> from the moment its request has settled.\<close>

definition performCapacityOperation_resume ::
  "string \<Rightarrow> string \<Rightarrow> entity \<Rightarrow> request \<Rightarrow> error + response \<Rightarrow> manager
   \<Rightarrow> (error + unit) \<times> manager" where
  "performCapacityOperation_resume operation operationName capacity options settled st =
     (case makeApiCall_continue options ''POST'' settled st of
        (Inl error, st1) \<Rightarrow> performCapacityOperation_finally operation capacity (Inl error) st1
      | (Inr result, st1) \<Rightarrow>
          performCapacityOperation_finally operation capacity (Inr ())
            ((logSuccess (operationName @ '' operation initiated for '' @ e_name capacity) st1)
               \<lparr>timers := timers st1 @ [RefreshTimer 2000]\<rparr>))"

text \<open>\<open>performCapacityOperation\<close> run to its end with nothing interleaved.\<close>

definition performCapacityOperation ::
  "string \<Rightarrow> string \<Rightarrow> manager \<Rightarrow> (error + unit) \<times> manager" where
  "performCapacityOperation operation operationName st =
     (case performCapacityOperation_begin operation operationName st of
        Returned r st1 \<Rightarrow> (r, st1)
      | AwaitingFetch capacity options i st1 \<Rightarrow>
          performCapacityOperation_resume operation operationName capacity options
            (network st1 i options) st1)"

text \<open>
  The listener of the start button. A \<open>click\<close> event is not dispatched on a disabled
  button. The second component collects the operations that are suspended.
\<close>

definition click_startButton :: "manager \<times> phase list \<Rightarrow> manager \<times> phase list" where
  "click_startButton ui =
     (case ui of
        (st, pending) \<Rightarrow>
          if startButton_disabled st then (st, pending)
          else (case performCapacityOperation_begin ''resume'' ''Starting'' st of
                  Returned r st1 \<Rightarrow> (st1, pending)
                | AwaitingFetch capacity options i st1 \<Rightarrow>
                    (st1, pending @ [AwaitingFetch capacity options i st1])))"

text \<open>
  \<open>updateCapacitySku\<close>. The body of the PATCH request is represented by the name of
  the requested sku; the arrow of the success line is written \<open>->\<close>.
\<close>

definition updateCapacitySku :: "manager \<Rightarrow> (error + unit) \<times> manager" where
  "updateCapacitySku st =
     (let selectedIndex = capacitySelect_value st;
          selectedSku = skuSelect_value st
      in if selectedIndex = [] \<or> selectedSku = [] then (Inr (), st)
         else
           (case array_get (capacities st) (parseInt selectedIndex) of
              None \<Rightarrow> (Inl (TypeError ''Cannot read properties of undefined (reading 'sku')''), st)
            | Some capacity \<Rightarrow>
                (let currentSku = or_else (e_sku capacity) ''Unknown'' in
                 if selectedSku = currentSku \<or> startsWith selectedSku ''Current:''
                 then (Inr (), log ''No SKU change required'' st)
                 else if or_else (e_state capacity) ''Unknown'' = ''Active'' \<and> \<not> confirm_answer st
                 then (Inr (), st)
                 else
                   (case setButtonsEnabled False
                           (log (''Updating capacity '' @ e_name capacity @ '' SKU from ''
                                 @ currentSku @ '' to '' @ selectedSku @ ''...'') st) of
                      (u, st1) \<Rightarrow>
                        (let st2 = st1\<lparr>updateSkuButton_disabled := True,
                                        skuSelect_disabled := True\<rparr>;
                             (tried, st3) =
                               (case makeApiCall (baseUrl @ str_of (e_id capacity)
                                                  @ ''?api-version='' @ fabricApiVersion)
                                       ''PATCH'' (Some selectedSku) st2 of
                                  (Inl error, s) \<Rightarrow>
                                    (Inl error,
                                     logError (''Failed to update SKU for capacity ''
                                               @ e_name capacity) (Some error) s)
                                | (Inr result, s) \<Rightarrow>
                                    (Inr (),
                                     (logSuccess (''SKU update initiated for '' @ e_name capacity
                                                  @ '': '' @ currentSku @ '' -> '' @ selectedSku) s)
                                       \<lparr>timers := timers s @ [RefreshReselectTimer 3000]\<rparr>))
                         in case setButtonsEnabled True st3 of
                              (Inl error, st4) \<Rightarrow> (Inl error, st4)
                            | (Inr u, st4) \<Rightarrow> (Inr (), st4\<lparr>skuSelect_disabled := False\<rparr>))))))"

subsection \<open>Auxiliary notions for the statements\<close>

text \<open>
  The argument that \<open>decodeJwtToken\<close> passes to \<open>atob\<close>: the second part of the
  token, padded and translated to the standard alphabet.
\<close>

definition payload_base64 :: "string \<Rightarrow> string" where
  "payload_base64 token =
     (let payload = str_split (CHR ''.'') token ! 1
      in replace_all (CHR ''_'') (CHR ''/'')
           (replace_all (CHR ''-'') (CHR ''+'')
              (payload @ replicate ((4 - length payload mod 4) mod 4) (CHR ''=''))))"

text \<open>A stand-in for \<open>JSON.parse\<close> that accepts the empty object only.\<close>

definition toy_parse :: "string \<Rightarrow> error + nat option" where
  "toy_parse s = (if s = ''{}'' then Inr (Some 0) else Inl (SyntaxError ''Unexpected token''))"

text \<open>A token of 101 characters whose last character is the argument.\<close>

definition token_101 :: "char \<Rightarrow> string" where
  "token_101 c = replicate 100 (CHR ''a'') @ [c]"

text \<open>
  The fields that neither the token lifecycle nor the API client writes: the capacity
  list, the elements other than the loading indicator and the log, and the collaborators.
\<close>

definition ui_view where
  "ui_view st =
     ((capacities st, capacitySelect_value st, capacitySelect_disabled st, startButton_disabled st,
       stopButton_disabled st, refreshButton_disabled st, updateSkuButton_disabled st,
       skuSelect_value st, skuSelect_disabled st, skuContainer_display st, initialLoadComplete st),
      (network st, identity st, JSON_parse st, decodeURIComponent st, random_words st, now st,
       storage_lastError st, confirm_answer st))"

text \<open>The interactive authorization flows launched so far.\<close>

definition interactive_flows :: "manager \<Rightarrow> authRequest list" where
  "interactive_flows st = filter a_interactive (flow_log st)"

text \<open>
  The controller after its constructor and \<open>initializeElements\<close>, with nothing stored,
  for a given network, identity provider and \<open>JSON.parse\<close>. The buttons are disabled
  as in \<open>popup.html\<close>.
\<close>

definition new_manager ::
  "(nat \<Rightarrow> request \<Rightarrow> error + response) \<Rightarrow> (nat \<Rightarrow> authRequest \<Rightarrow> flowResult)
   \<Rightarrow> (string \<Rightarrow> error + json option) \<Rightarrow> manager" where
  "new_manager net idp parse =
     \<lparr>accessToken = None, capacities = [], initialLoadComplete = False,
      capacitySelect_value = [], capacitySelect_disabled = False,
      startButton_disabled = True, stopButton_disabled = True, refreshButton_disabled = False,
      updateSkuButton_disabled = True, skuSelect_value = [], skuSelect_disabled = False,
      skuContainer_display = ''none'', loadingIndicator_display = [], logArea = [], timers = [],
      display_tasks = [],
      local_storage = \<lparr>stored_accessToken = None, stored_tokenExpiry = None,
                        stored_sessionInfo = None\<rparr>,
      storage_lastError = False, now = 1700000000000, network = net, fetch_log = [],
      identity = idp, flow_log = [], random_words = (\<lambda>i. 0), random_calls = 0,
      confirm_answer = True, JSON_parse = parse, decodeURIComponent = Inr\<rparr>"

text \<open>Three capacities \<open>A\<close>, \<open>B\<close>, \<open>C\<close> of one subscription.\<close>

definition capacity_A :: entity where
  "capacity_A = \<lparr>e_id = Some ''/subscriptions/s1/capacities/A'', e_name = ''A'',
                  e_state = Some ''Active'', e_sku = Some ''F2'', e_subscriptionId = ''s1'',
                  e_displayName = ''A (Active)''\<rparr>"

definition capacity_B :: entity where
  "capacity_B = \<lparr>e_id = Some ''/subscriptions/s1/capacities/B'', e_name = ''B'',
                  e_state = Some ''Paused'', e_sku = Some ''F4'', e_subscriptionId = ''s1'',
                  e_displayName = ''B (Paused)''\<rparr>"

definition capacity_C :: entity where
  "capacity_C = \<lparr>e_id = Some ''/subscriptions/s1/capacities/C'', e_name = ''C'',
                  e_state = Some ''Paused'', e_sku = Some ''F8'', e_subscriptionId = ''s1'',
                  e_displayName = ''C (Paused)''\<rparr>"

text \<open>A network that is never reached, and a parser that rejects every text.\<close>

definition no_network :: "nat \<Rightarrow> request \<Rightarrow> error + response" where
  "no_network i options = Inl (TypeError ''Failed to fetch'')"

definition no_parse :: "string \<Rightarrow> error + json option" where
  "no_parse s = Inl (SyntaxError ''Unexpected token'')"

text \<open>An identity provider whose response carries a state that was not sent.\<close>

definition forged_params :: "(string \<times> string) list" where
  "forged_params = [(''access_token'', ''stolen''), (''state'', ''forged'')]"

definition forging_identity :: "nat \<Rightarrow> authRequest \<Rightarrow> flowResult" where
  "forging_identity i a = ResponseUrl (Url forged_params)"

text \<open>The popup with \<open>A\<close>, \<open>B\<close>, \<open>C\<close> listed, \<open>B\<close> selected, and a token.\<close>

definition popup_ABC ::
  "(nat \<Rightarrow> request \<Rightarrow> error + response) \<Rightarrow> (nat \<Rightarrow> authRequest \<Rightarrow> flowResult)
   \<Rightarrow> (string \<Rightarrow> error + json option) \<Rightarrow> manager" where
  "popup_ABC net idp parse =
     (new_manager net idp parse)
       \<lparr>accessToken := Some ''T0'', capacities := [capacity_A, capacity_B, capacity_C],
        initialLoadComplete := True, capacitySelect_value := ''1'',
        startButton_disabled := False, stopButton_disabled := True,
        skuContainer_display := ''block'', skuSelect_value := ''F4'',
        loadingIndicator_display := ''none''\<rparr>"

text \<open>A stored token with 100 seconds left.\<close>

definition almost_expired :: manager where
  "almost_expired =
     (new_manager no_network forging_identity no_parse)
       \<lparr>local_storage := \<lparr>stored_accessToken = Some ''T0'',
                           stored_tokenExpiry = Some ''1700000100000'',
                           stored_sessionInfo = None\<rparr>\<rparr>"

text \<open>The request that \<open>makeApiCall\<close> builds and sends first.\<close>

definition first_request :: "string \<Rightarrow> string \<Rightarrow> string option \<Rightarrow> manager \<Rightarrow> request" where
  "first_request url method body st =
     \<lparr>req_url = url, req_method = method,
      req_authorization = ''Bearer '' @ the (accessToken st), req_body = body\<rparr>"

text \<open>The same request with the authorization header replaced by a new token.\<close>

definition retry_request :: "string \<Rightarrow> string \<Rightarrow> string option \<Rightarrow> string \<Rightarrow> request" where
  "retry_request url method body token =
     \<lparr>req_url = url, req_method = method,
      req_authorization = ''Bearer '' @ token, req_body = body\<rparr>"

text \<open>The controller when the answer to the first request has arrived.\<close>

definition after_first_request :: "string \<Rightarrow> string \<Rightarrow> string option \<Rightarrow> manager \<Rightarrow> manager" where
  "after_first_request url method body st = snd (fetch (first_request url method body st) st)"

text \<open>An identity provider that grants the token \<open>T1\<close> and echoes the state.\<close>

definition echo_identity :: "nat \<Rightarrow> authRequest \<Rightarrow> flowResult" where
  "echo_identity i a = ResponseUrl (Url [(''access_token'', ''T1''), (''state'', a_state a)])"

text \<open>An identity provider that refuses the silent flow.\<close>

definition interactive_only_identity :: "nat \<Rightarrow> authRequest \<Rightarrow> flowResult" where
  "interactive_only_identity i a =
     (if a_interactive a then echo_identity i a else FlowLastError ''interaction_required'')"

text \<open>
  A network that answers 401 to the first request and 200 with the body \<open>b\<close>
  afterwards.
\<close>

definition unauthorized_once :: "string \<Rightarrow> nat \<Rightarrow> request \<Rightarrow> error + response" where
  "unauthorized_once b i options =
     Inr (if i = 0 then \<lparr>r_status = 401, r_statusText = ''Unauthorized'', r_text = []\<rparr>
          else \<lparr>r_status = 200, r_statusText = ''OK'', r_text = b\<rparr>)"

text \<open>A network that answers 401 to every request.\<close>

definition always_unauthorized :: "nat \<Rightarrow> request \<Rightarrow> error + response" where
  "always_unauthorized i options =
     Inr \<lparr>r_status = 401, r_statusText = ''Unauthorized'', r_text = []\<rparr>"

text \<open>
  The outcome of \<open>getCapacitiesForSubscription\<close> for each subscription, in the order and
  in the states in which the loop of \<open>loadCapacities\<close> calls it: \<open>Inl\<close> when it throws.
\<close>

fun scope_outcomes :: "entity list \<Rightarrow> manager \<Rightarrow> (error + entity list) list" where
  "scope_outcomes [] st = []"
| "scope_outcomes (subscription # rest) st =
     (case getCapacitiesForSubscription (e_subscriptionId subscription) st of
        (Inr found, st1) \<Rightarrow>
          Inr found # scope_outcomes rest (st1\<lparr>capacities := capacities st1 @ found\<rparr>)
      | (Inl error, st1) \<Rightarrow> Inl error # scope_outcomes rest st1)"

text \<open>The capacities that a scope contributes: none when its enumeration failed.\<close>

definition found_in :: "error + entity list \<Rightarrow> entity list" where
  "found_in outcome = (case outcome of Inl error \<Rightarrow> [] | Inr found \<Rightarrow> found)"

text \<open>The controller when \<open>loadCapacities\<close> has emptied the list and shown the indicator.\<close>

definition discovery_start :: "manager \<Rightarrow> manager" where
  "discovery_start st =
     (showLoading True (log ''Loading Fabric capacities...'' st))\<lparr>capacities := []\<rparr>"

text \<open>A subscription as the control plane lists it.\<close>

definition example_subscription :: "string \<Rightarrow> entity" where
  "example_subscription s =
     \<lparr>e_id = Some (''/subscriptions/'' @ s), e_name = s, e_state = Some ''Enabled'',
      e_sku = None, e_subscriptionId = s, e_displayName = s\<rparr>"

text \<open>A parsed body with a \<open>value\<close> array.\<close>

definition json_value :: "entity list \<Rightarrow> json" where
  "json_value v = \<lparr>j_value = Some v, j_tid = None, j_upn = None, j_unique_name = None\<rparr>"

text \<open>A parser for three bodies: the subscription list and two capacity lists.\<close>

definition discovery_parse :: "string \<Rightarrow> error + json option" where
  "discovery_parse s =
     (if s = ''SUBS''
      then Inr (Some (json_value [example_subscription ''s1'', example_subscription ''s2'',
                                  example_subscription ''s3'']))
      else if s = ''CAPS1'' then Inr (Some (json_value [capacity_A]))
      else if s = ''CAPS3'' then Inr (Some (json_value [capacity_C]))
      else Inl (SyntaxError ''Unexpected token''))"

text \<open>
  A network for a discovery over three subscriptions in which the enumeration of the
  second one fails with status 500.
\<close>

definition discovery_network :: "nat \<Rightarrow> request \<Rightarrow> error + response" where
  "discovery_network i options =
     Inr (if i = 0 then \<lparr>r_status = 200, r_statusText = ''OK'', r_text = ''SUBS''\<rparr>
          else if i = 1 then \<lparr>r_status = 200, r_statusText = ''OK'', r_text = ''CAPS1''\<rparr>
          else if i = 2 then \<lparr>r_status = 500, r_statusText = ''Internal Server Error'', r_text = []\<rparr>
          else \<lparr>r_status = 200, r_statusText = ''OK'', r_text = ''CAPS3''\<rparr>)"

text \<open>The controller with a token, before its first discovery on that network.\<close>

definition discovering :: manager where
  "discovering = (new_manager discovery_network forging_identity discovery_parse)
                   \<lparr>accessToken := Some ''T0''\<rparr>"

text \<open>
  A parser for the bodies of the refresh scenarios: the capacity lists \<open>[A, C]\<close>,
  \<open>[C, A, B]\<close> and \<open>[A, B, C]\<close>, and the subscription list.
\<close>

definition refresh_parse :: "string \<Rightarrow> error + json option" where
  "refresh_parse s =
     (if s = ''AC'' then Inr (Some (json_value [capacity_A, capacity_C]))
      else if s = ''CAB'' then Inr (Some (json_value [capacity_C, capacity_A, capacity_B]))
      else if s = ''ABC'' then Inr (Some (json_value [capacity_A, capacity_B, capacity_C]))
      else if s = ''SUBS'' then Inr (Some (json_value [example_subscription ''s1'']))
      else Inl (SyntaxError ''Unexpected token''))"

text \<open>A network that answers every request with status 200 and the body \<open>b\<close>.\<close>

definition answering :: "string \<Rightarrow> nat \<Rightarrow> request \<Rightarrow> error + response" where
  "answering b i options = Inr \<lparr>r_status = 200, r_statusText = ''OK'', r_text = b\<rparr>"

text \<open>
  A network that answers the request for the subscriptions with the subscription list and
  every other request with the body \<open>b\<close>.
\<close>

definition subscriptions_then :: "string \<Rightarrow> nat \<Rightarrow> request \<Rightarrow> error + response" where
  "subscriptions_then b i options =
     Inr \<lparr>r_status = 200, r_statusText = ''OK'',
          r_text = (if req_url options
                       = baseUrl @ ''/subscriptions?api-version='' @ subscriptionApiVersion
                    then ''SUBS'' else b)\<rparr>"

text \<open>
  The popup with \<open>A\<close>, \<open>B\<close>, \<open>C\<close> listed and \<open>B\<close> selected, after its token was
  dropped: \<open>clearCachedAuth\<close> and \<open>handleTokenExpiry\<close> reset \<open>accessToken\<close> and leave
  the list and the dropdown as they are.
\<close>

definition logged_out_ABC :: manager where
  "logged_out_ABC =
     (popup_ABC (subscriptions_then ''ABC'') interactive_only_identity refresh_parse)
       \<lparr>accessToken := None\<rparr>"

text \<open>An identity provider whose window the user closes.\<close>

definition refusing_identity :: "nat \<Rightarrow> authRequest \<Rightarrow> flowResult" where
  "refusing_identity i a = FlowLastError ''The user did not approve access.''"

text \<open>
  The values of the options of the capacity dropdown as \<open>populateCapacityDropdown\<close>
  builds them: the empty option and one index per capacity.
\<close>

definition option_values :: "manager \<Rightarrow> string list" where
  "option_values st = [] # map (\<lambda>i. toString (int i)) [0..<length (capacities st)]"

text \<open>
  The listener of the capacity dropdown: the user picks the option with value \<open>v\<close> and a
  \<open>change\<close> event runs \<open>onCapacitySelectionChange\<close>. No event is dispatched when the dropdown is
  disabled or the option is the selected one.
\<close>

definition change_capacitySelect ::
  "string \<Rightarrow> manager \<times> phase list \<Rightarrow> manager \<times> phase list" where
  "change_capacitySelect v ui =
     (case ui of
        (st, pending) \<Rightarrow>
          if capacitySelect_disabled st \<or> v = capacitySelect_value st
             \<or> v \<notin> set (option_values st)
          then (st, pending)
          else (snd (onCapacitySelectionChange (st\<lparr>capacitySelect_value := v\<rparr>)), pending))"

text \<open>The request that \<open>performCapacityOperation\<close> sends for \<open>resume\<close>.\<close>

definition resume_request :: "entity \<Rightarrow> manager \<Rightarrow> request" where
  "resume_request capacity st =
     \<lparr>req_url = baseUrl @ str_of (e_id capacity) @ ''/resume?api-version='' @ fabricApiVersion,
      req_method = ''POST'', req_authorization = ''Bearer '' @ the (accessToken st),
      req_body = None\<rparr>"

text \<open>The capacity of a suspended operation.\<close>

fun pending_capacity :: "phase \<Rightarrow> entity option" where
  "pending_capacity (Returned r st) = None"
| "pending_capacity (AwaitingFetch capacity options i st) = Some capacity"

section \<open>Verified properties\<close>

subsection \<open>The anti-forgery state\<close>

lemma toString_radix_last:
  "\<exists>xs. toString_radix 16 m = xs @ [digit_char (m mod 16)]"
proof (cases "m < 16")
  case True
  then show ?thesis by (subst toString_radix.simps) simp
next
  case False
  then show ?thesis by (subst toString_radix.simps) simp
qed

lemma digit_char_0: "digit_char 0 = CHR ''0''"
  by (simp add: digit_char_def)

lemma hex_low_byte:
  "substr_last2 (CHR ''0'' # toString_radix 16 n)
     = [digit_char (n div 16 mod 16), digit_char (n mod 16)]"
proof (cases "n < 16")
  case True
  then have "toString_radix 16 n = [digit_char n]"
    by (subst toString_radix.simps) simp
  with True show ?thesis by (simp add: substr_last2_def digit_char_0)
next
  case False
  then have step: "toString_radix 16 n = toString_radix 16 (n div 16) @ [digit_char (n mod 16)]"
    by (subst toString_radix.simps) simp
  obtain xs where xs: "toString_radix 16 (n div 16) = xs @ [digit_char (n div 16 mod 16)]"
    using toString_radix_last by blast
  show ?thesis by (simp add: step xs substr_last2_def)
qed

lemma generateState_low_bytes:
  "generateState array
     = concat (map (\<lambda>dec. [digit_char (unat dec div 16 mod 16), digit_char (unat dec mod 16)]) array)"
  by (simp add: generateState_def hex_low_byte)

lemma unat_and_255: "unat ((w :: 32 word) AND 255) = unat w mod 256"
proof -
  have "w AND 255 = take_bit 8 w"
    by (simp add: take_bit_eq_mask mask_eq_exp_minus_1)
  then have "unat (w AND 255) = take_bit 8 (unat w)"
    by (simp only: unsigned_take_bit_eq)
  also have "\<dots> = unat w mod 2 ^ 8"
    by (simp only: take_bit_eq_mod)
  finally show ?thesis by simp
qed


lemma low_digits_mod_256:
  "(n mod 256) div 16 mod 16 = n div 16 mod 16" "(n mod 256) mod 16 = n mod 16" for n :: nat
proof -
  have "n mod (16 * 16) = 16 * (n div 16 mod 16) + n mod 16"
    by (rule mod_mult2_eq)
  then have "(n mod 256) div 16 = n div 16 mod 16"
    by simp
  then show "(n mod 256) div 16 mod 16 = n div 16 mod 16"
    by simp
  show "(n mod 256) mod 16 = n mod 16"
    by (rule mod_mod_cancel) simp
qed


lemma generateState_and_255:
  "generateState (map (\<lambda>dec. dec AND 255) array) = generateState array"
  by (simp add: generateState_low_bytes comp_def unat_and_255 low_digits_mod_256)

lemma length_generateState: "length (generateState array) = 2 * length array"
  by (simp add: generateState_low_bytes length_concat comp_def sum_list_triv)

lemma card_low_bytes: "card {w :: 32 word. w \<le> 255} \<le> 256"
proof -
  have "unat ` {w :: 32 word. w \<le> 255} \<subseteq> {..<256}"
    by (auto simp: word_le_nat_alt)
  then have "card (unat ` {w :: 32 word. w \<le> 255}) \<le> card {..<256::nat}"
    by (intro card_mono) auto
  moreover have "card (unat ` {w :: 32 word. w \<le> 255}) = card {w :: 32 word. w \<le> 255}"
    by (intro card_image inj_onI) (simp add: word_unat_eq_iff)
  ultimately show ?thesis by simp
qed

lemma card_generateState: "card (generateState ` {array. length array = 4}) \<le> 2 ^ 32"
proof -
  let ?B = "{xs :: 32 word list. set xs \<subseteq> {w. w \<le> 255} \<and> length xs = 4}"
  have fin: "finite ?B" by (rule finite_lists_length_eq) simp
  have "generateState ` {array. length array = 4} \<subseteq> generateState ` ?B"
  proof
    fix s assume "s \<in> generateState ` {array. length array = 4}"
    then obtain a where a: "length a = 4" "s = generateState a" by auto
    have "set (map (\<lambda>dec. dec AND 255) a) \<subseteq> {w. w \<le> 255}"
      by (clarsimp simp: word_and_le1)
    with a(1) have "map (\<lambda>dec. dec AND 255) a \<in> ?B" by simp
    moreover have "s = generateState (map (\<lambda>dec. dec AND 255) a)"
      by (simp add: a(2) generateState_and_255)
    ultimately show "s \<in> generateState ` ?B" by (rule rev_image_eqI)
  qed
  then have "card (generateState ` {array. length array = 4}) \<le> card (generateState ` ?B)"
    using fin by (intro card_mono) auto
  also have "\<dots> \<le> card ?B" by (rule card_image_le[OF fin])
  also have "\<dots> = card {w :: 32 word. w \<le> 255} ^ 4" by (rule card_lists_length_eq) simp
  also have "\<dots> \<le> 256 ^ 4" by (rule power_mono[OF card_low_bytes]) simp
  finally show ?thesis by simp
qed

text \<open>
  C10. For the four words drawn from the random source, \<open>generateState\<close> returns a
  string of exactly eight characters; each word contributes only its two lowest
  hexadecimal digits, so the state is unchanged when every word is reduced to its low
  byte, and at most \<open>2^32\<close> different states exist.
\<close>

theorem generateState_low_bytes_only:
  "length array = 4 \<Longrightarrow>
     length (generateState array) = 8
     \<and> generateState array
         = concat (map (\<lambda>dec. [digit_char (unat dec div 16 mod 16), digit_char (unat dec mod 16)])
                     array)
     \<and> generateState (map (\<lambda>dec. dec AND 255) array) = generateState array
     \<and> card (generateState ` {a. length a = 4}) \<le> 2 ^ 32"
  using generateState_low_bytes [of array] generateState_and_255 [of array]
    card_generateState length_generateState [of array]
  by simp

theorem generateState_low_bytes_only_witness:
  "length [0x5, 0x1234abcd, 0, 0xffffffff :: 32 word] = 4
   \<and> generateState [0x5, 0x1234abcd, 0, 0xffffffff] = ''05cd00ff''
   \<and> generateState [0x5, 0xcd, 0, 0xff] = ''05cd00ff''"
  using generateState_low_bytes_only [of "[0x5, 0x1234abcd, 0, 0xffffffff]"]
  by (simp add: digit_char_def)

subsection \<open>The credential cache\<close>

lemma take_min_length: "take (min (length xs) n) xs = take n xs"
  by (simp add: min_def)

lemma generateTokenHash_first_100:
  "take 100 token' = take 100 token \<Longrightarrow> token \<noteq> [] \<Longrightarrow> token' \<noteq> []
   \<Longrightarrow> generateTokenHash token' = generateTokenHash token"
  by (simp add: generateTokenHash_def take_min_length)

lemma take_100_token_101: "take 100 (token_101 c) = replicate 100 (CHR ''a'')"
  by (simp add: token_101_def)

lemma parseInt_2000000: "parseInt ''2000000'' = Some 2000000"
  by (simp add: parseInt_def isWhiteSpace_def isDigit_def digit_value_def digits_value_def Let_def)

lemma generateTokenHash_a: "generateTokenHash ''a'' = ''97''"
  by (simp add: generateTokenHash_def hash_step_def toString_def toString_radix.simps digit_char_def)

lemma generateTokenHash_b: "generateTokenHash ''b'' = ''98''"
  by (simp add: generateTokenHash_def hash_step_def toString_def toString_radix.simps digit_char_def)

text \<open>
  C2, as stated, fails: the fingerprint reads the first 100 characters only, so a stored
  token changed at its 101st character, with the fingerprint left as it was, is still
  returned by \<open>getCachedToken\<close>.
\<close>

theorem fingerprint_guard_counterexample:
  "token_101 (CHR ''y'') \<noteq> token_101 (CHR ''x'')
   \<and> getCachedToken False 1000
        \<lparr>stored_accessToken = Some (token_101 (CHR ''y'')),
         stored_tokenExpiry = Some ''2000000'',
         stored_sessionInfo = Some \<lparr>cachedAt = 0, tenantId = None, userPrincipalName = None,
                                    tokenHash = generateTokenHash (token_101 (CHR ''x''))\<rparr>\<rparr>
      = Some (token_101 (CHR ''y''))"
proof -
  have "generateTokenHash (token_101 (CHR ''y'')) = generateTokenHash (token_101 (CHR ''x''))"
    by (rule generateTokenHash_first_100) (simp_all add: take_100_token_101, simp_all add: token_101_def)
  then show ?thesis
    by (simp add: getCachedToken_def truthy_def parseInt_2000000 bufferTime_def, simp add: token_101_def)
qed

text \<open>
  C2, amended. When a session fingerprint was stored for a token and the stored token is
  replaced by one whose \<open>generateTokenHash\<close> value differs from that fingerprint, the next
  \<open>getCachedToken\<close> resolves \<open>null\<close>.
\<close>

theorem fingerprint_guard:
  "stored_sessionInfo result = Some si \<Longrightarrow>
   tokenHash si = generateTokenHash token \<Longrightarrow>
   stored_accessToken result = Some token' \<Longrightarrow>
   generateTokenHash token' \<noteq> generateTokenHash token \<Longrightarrow>
   getCachedToken lastError t result = None"
  by (simp add: getCachedToken_def)

theorem fingerprint_guard_witness:
  "generateTokenHash ''b'' \<noteq> generateTokenHash ''a''
   \<and> getCachedToken False 1000
        \<lparr>stored_accessToken = Some ''b'', stored_tokenExpiry = Some ''2000000'',
         stored_sessionInfo = Some \<lparr>cachedAt = 0, tenantId = None, userPrincipalName = None,
                                    tokenHash = generateTokenHash ''a''\<rparr>\<rparr> = None"
  using fingerprint_guard
    [of "\<lparr>stored_accessToken = Some ''b'', stored_tokenExpiry = Some ''2000000'',
          stored_sessionInfo = Some \<lparr>cachedAt = 0, tenantId = None, userPrincipalName = None,
                                     tokenHash = generateTokenHash ''a''\<rparr>\<rparr>"
        "\<lparr>cachedAt = 0, tenantId = None, userPrincipalName = None,
          tokenHash = generateTokenHash ''a''\<rparr>"
        "''a''" "''b''" False 1000]
  by (simp add: generateTokenHash_a generateTokenHash_b)

subsection \<open>Decoding never throws\<close>

lemma payload_base64_padded: "payload_base64 ''a.e30.c'' = ''e30=''"
  by (simp add: payload_base64_def replace_all_def)

lemma payload_base64_bad_json: "payload_base64 ''a.e3t9.c'' = ''e3t9''"
  by (simp add: payload_base64_def replace_all_def)

lemma payload_base64_stars: "payload_base64 ''a.****.c'' = ''****''"
  by (simp add: payload_base64_def replace_all_def)

lemma atob_empty_object: "atob ''e30='' = Some ''{}''"
  by (simp add: atob_def b64_value_def Let_def char_of_def bit_Suc_0_iff)

lemma atob_bad_json: "atob ''e3t9'' = Some ''{{}''"
  by (simp add: atob_def b64_value_def Let_def char_of_def bit_Suc_0_iff)

lemma atob_stars: "atob ''****'' = None"
  by (simp add: atob_def b64_value_def Let_def)

text \<open>
  C9. For every input string \<open>decodeJwtToken\<close> returns a value and never an exception;
  it returns \<open>null\<close> when the token does not have three parts, when the payload is
  not valid base64url, and when \<open>JSON.parse\<close> rejects the decoded payload; on a
  three-part token with a decodable, parseable payload it returns the parsed value.
\<close>

theorem decodeJwtToken_never_throws:
  "(\<exists>tokenData. decodeJwtToken parse token = Inr tokenData)
   \<and> (length (str_split (CHR ''.'') token) \<noteq> 3 \<longrightarrow> decodeJwtToken parse token = Inr None)
   \<and> (atob (payload_base64 token) = None \<longrightarrow> decodeJwtToken parse token = Inr None)
   \<and> (\<forall>decoded e. atob (payload_base64 token) = Some decoded \<and> parse decoded = Inl e
          \<longrightarrow> decodeJwtToken parse token = Inr None)
   \<and> (\<forall>decoded v. length (str_split (CHR ''.'') token) = 3
          \<and> atob (payload_base64 token) = Some decoded \<and> parse decoded = Inr v
          \<longrightarrow> decodeJwtToken parse token = Inr v)"
  by (auto simp: decodeJwtToken_def decodeJwtToken_try_def payload_base64_def Let_def
           split: sum.splits option.splits)

theorem decodeJwtToken_never_throws_witness:
  "decodeJwtToken toy_parse ''ab.cd'' = Inr None
   \<and> decodeJwtToken toy_parse ''a.****.c'' = Inr None
   \<and> decodeJwtToken toy_parse ''a.e3t9.c'' = Inr None
   \<and> decodeJwtToken toy_parse ''a.e30.c'' = Inr (Some 0)"
proof -
  have parts: "length (str_split (CHR ''.'') ''ab.cd'') \<noteq> 3"
    "length (str_split (CHR ''.'') ''a.e30.c'') = 3"
    by simp_all
  have parsed: "toy_parse ''{{}'' = Inl (SyntaxError ''Unexpected token'')"
    "toy_parse ''{}'' = Inr (Some 0)"
    by (simp_all add: toy_parse_def)
  show ?thesis
    using decodeJwtToken_never_throws [of toy_parse "''ab.cd''"]
      decodeJwtToken_never_throws [of toy_parse "''a.****.c''"]
      decodeJwtToken_never_throws [of toy_parse "''a.e3t9.c''"]
      decodeJwtToken_never_throws [of toy_parse "''a.e30.c''"]
    by (simp add: parts parsed payload_base64_padded payload_base64_bad_json
          payload_base64_stars atob_empty_object atob_bad_json atob_stars)
qed

subsection \<open>Fields left alone by the token lifecycle\<close>

lemma ui_view_updates [simp]:
  "ui_view (st\<lparr>accessToken := a\<rparr>) = ui_view st"
  "ui_view (st\<lparr>loadingIndicator_display := b\<rparr>) = ui_view st"
  "ui_view (st\<lparr>logArea := c\<rparr>) = ui_view st"
  "ui_view (st\<lparr>timers := d\<rparr>) = ui_view st"
  "ui_view (st\<lparr>display_tasks := e\<rparr>) = ui_view st"
  "ui_view (st\<lparr>local_storage := f\<rparr>) = ui_view st"
  "ui_view (st\<lparr>fetch_log := g\<rparr>) = ui_view st"
  "ui_view (st\<lparr>flow_log := h\<rparr>) = ui_view st"
  "ui_view (st\<lparr>random_calls := i\<rparr>) = ui_view st"
  by (simp_all add: ui_view_def)

lemma ui_view_primitives [simp]:
  "ui_view (log m st) = ui_view st"
  "ui_view (logError m err st) = ui_view st"
  "ui_view (logSuccess m st) = ui_view st"
  "ui_view (showLoading b st) = ui_view st"
  "ui_view (cacheToken tok ex st) = ui_view st"
  "ui_view (clearCachedAuth st) = ui_view st"
  "ui_view (snd (fetch req st)) = ui_view st"
  "ui_view (snd (fetch_issue req st)) = ui_view st"
  "ui_view (snd (launchWebAuthFlow a st)) = ui_view st"
  "ui_view (snd (generateState_next st)) = ui_view st"
  by (simp_all add: log_def logError_def logSuccess_def showLoading_def cacheToken_def Let_def
        clearCachedAuth_def fetch_def fetch_issue_def launchWebAuthFlow_def generateState_next_def)

lemma ui_view_validateToken [simp]: "ui_view (snd (validateToken tok st)) = ui_view st"
  by (simp add: validateToken_def split: prod.splits sum.splits)
     (metis ui_view_primitives(7) snd_conv)


lemma fetch_log_primitives [simp]:
  "fetch_log (log m st) = fetch_log st"
  "fetch_log (logError m err st) = fetch_log st"
  "fetch_log (logSuccess m st) = fetch_log st"
  "fetch_log (showLoading b st) = fetch_log st"
  "fetch_log (cacheToken tok ex st) = fetch_log st"
  "fetch_log (clearCachedAuth st) = fetch_log st"
  "fetch_log (snd (fetch req st)) = fetch_log st @ [req]"
  "fetch_log (snd (fetch_issue req st)) = fetch_log st @ [req]"
  "fetch_log (snd (launchWebAuthFlow a st)) = fetch_log st"
  "fetch_log (snd (generateState_next st)) = fetch_log st"
  by (simp_all add: log_def logError_def logSuccess_def showLoading_def cacheToken_def Let_def
        clearCachedAuth_def fetch_def fetch_issue_def launchWebAuthFlow_def generateState_next_def)

lemma flow_log_primitives [simp]:
  "flow_log (log m st) = flow_log st"
  "flow_log (logError m err st) = flow_log st"
  "flow_log (logSuccess m st) = flow_log st"
  "flow_log (showLoading b st) = flow_log st"
  "flow_log (cacheToken tok ex st) = flow_log st"
  "flow_log (clearCachedAuth st) = flow_log st"
  "flow_log (snd (fetch req st)) = flow_log st"
  "flow_log (snd (fetch_issue req st)) = flow_log st"
  "flow_log (snd (launchWebAuthFlow a st)) = flow_log st @ [a]"
  "flow_log (snd (generateState_next st)) = flow_log st"
  by (simp_all add: log_def logError_def logSuccess_def showLoading_def cacheToken_def Let_def
        clearCachedAuth_def fetch_def fetch_issue_def launchWebAuthFlow_def generateState_next_def)

lemma local_storage_primitives [simp]:
  "local_storage (log m st) = local_storage st"
  "local_storage (logError m err st) = local_storage st"
  "local_storage (logSuccess m st) = local_storage st"
  "local_storage (showLoading b st) = local_storage st"
  "local_storage (snd (fetch req st)) = local_storage st"
  "local_storage (snd (fetch_issue req st)) = local_storage st"
  "local_storage (snd (launchWebAuthFlow a st)) = local_storage st"
  "local_storage (snd (generateState_next st)) = local_storage st"
  "local_storage (clearCachedAuth st)
     = \<lparr>stored_accessToken = None, stored_tokenExpiry = None, stored_sessionInfo = None\<rparr>"
  by (simp_all add: log_def logError_def logSuccess_def showLoading_def
        clearCachedAuth_def fetch_def fetch_issue_def launchWebAuthFlow_def generateState_next_def)

lemma accessToken_primitives [simp]:
  "accessToken (log m st) = accessToken st"
  "accessToken (logError m err st) = accessToken st"
  "accessToken (logSuccess m st) = accessToken st"
  "accessToken (showLoading b st) = accessToken st"
  "accessToken (cacheToken tok ex st) = accessToken st"
  "accessToken (clearCachedAuth st) = accessToken st"
  "accessToken (snd (fetch req st)) = accessToken st"
  "accessToken (snd (fetch_issue req st)) = accessToken st"
  "accessToken (snd (launchWebAuthFlow a st)) = accessToken st"
  "accessToken (snd (generateState_next st)) = accessToken st"
  by (simp_all add: log_def logError_def logSuccess_def showLoading_def cacheToken_def Let_def
        clearCachedAuth_def fetch_def fetch_issue_def launchWebAuthFlow_def generateState_next_def)

lemma display_tasks_primitives [simp]:
  "display_tasks (log m st) = display_tasks st"
  "display_tasks (logError m err st) = display_tasks st"
  "display_tasks (logSuccess m st) = display_tasks st"
  "display_tasks (showLoading b st) = display_tasks st"
  "display_tasks (cacheToken tok ex st) = display_tasks st"
  "display_tasks (clearCachedAuth st) = display_tasks st"
  "display_tasks (snd (fetch req st)) = display_tasks st"
  "display_tasks (snd (fetch_issue req st)) = display_tasks st"
  "display_tasks (snd (launchWebAuthFlow a st)) = display_tasks st"
  "display_tasks (snd (generateState_next st)) = display_tasks st"
  by (simp_all add: log_def logError_def logSuccess_def showLoading_def cacheToken_def Let_def
        clearCachedAuth_def fetch_def fetch_issue_def launchWebAuthFlow_def generateState_next_def)

lemma updateTenantAndUserDisplay_frame [simp]:
  "ui_view (updateTenantAndUserDisplay tok st) = ui_view st"
  "flow_log (updateTenantAndUserDisplay tok st) = flow_log st"
  "local_storage (updateTenantAndUserDisplay tok st) = local_storage st"
  "accessToken (updateTenantAndUserDisplay tok st) = accessToken st"
  "logArea (updateTenantAndUserDisplay tok st) = logArea st"
  "timers (updateTenantAndUserDisplay tok st) = timers st"
  by (simp_all add: updateTenantAndUserDisplay_def fetch_issue_def)

lemma fetch_log_updateTenantAndUserDisplay:
  "fetch_log (updateTenantAndUserDisplay tok st)
     = (if truthy (accessToken st) then fetch_log st @ [getUserInfo_request st] else fetch_log st)"
  by (simp add: updateTenantAndUserDisplay_def fetch_issue_def)

lemma getUserInfo_request_frame [simp]:
  "getUserInfo_request (st\<lparr>accessToken := Some tok\<rparr>)
     = \<lparr>req_url = graphUrl @ ''/v1.0/me'', req_method = ''GET'',
        req_authorization = ''Bearer '' @ tok, req_body = None\<rparr>"
  by (simp add: getUserInfo_request_def)

lemma ui_view_attemptOAuth2WithScope [simp]:
  "ui_view (snd (attemptOAuth2WithScope sc st)) = ui_view st"
  by (simp add: attemptOAuth2WithScope_def split_beta split: flowResult.splits sum.splits)

lemma ui_view_attemptSilentAuthWithScope [simp]:
  "ui_view (snd (attemptSilentAuthWithScope sc st)) = ui_view st"
  by (simp add: attemptSilentAuthWithScope_def split_beta split: flowResult.splits sum.splits)

lemma ui_view_performOAuth2Flow [simp]: "ui_view (snd (performOAuth2Flow st)) = ui_view st"
  by (simp add: performOAuth2Flow_def split_beta split: sum.splits)

lemma ui_view_performSilentAuth [simp]: "ui_view (snd (performSilentAuth st)) = ui_view st"
  by (simp add: performSilentAuth_def split_beta split: sum.splits)

lemma ui_view_handleTokenExpiry [simp]: "ui_view (snd (handleTokenExpiry st)) = ui_view st"
  by (simp add: handleTokenExpiry_def split_beta split: option.splits)

lemma ui_view_authenticate [simp]: "ui_view (snd (authenticate st)) = ui_view st"
  by (simp add: authenticate_def Let_def split_beta split: sum.splits)

lemma fetch_log_attemptOAuth2WithScope [simp]:
  "fetch_log (snd (attemptOAuth2WithScope sc st)) = fetch_log st"
  by (simp add: attemptOAuth2WithScope_def split_beta split: flowResult.splits sum.splits)

lemma fetch_log_attemptSilentAuthWithScope [simp]:
  "fetch_log (snd (attemptSilentAuthWithScope sc st)) = fetch_log st"
  by (simp add: attemptSilentAuthWithScope_def split_beta split: flowResult.splits sum.splits)

lemma fetch_log_performOAuth2Flow [simp]: "fetch_log (snd (performOAuth2Flow st)) = fetch_log st"
  by (simp add: performOAuth2Flow_def split_beta split: sum.splits)

lemma fetch_log_performSilentAuth [simp]: "fetch_log (snd (performSilentAuth st)) = fetch_log st"
  by (simp add: performSilentAuth_def split_beta split: sum.splits)

lemma fetch_log_handleTokenExpiry [simp]: "fetch_log (snd (handleTokenExpiry st)) = fetch_log st"
  by (simp add: handleTokenExpiry_def split_beta split: option.splits)


lemma extractTokenFromUrl_truthy:
  "extractTokenFromUrl d r e = Inr ti \<Longrightarrow> ti_accessToken ti \<noteq> []"
  by (auto simp: extractTokenFromUrl_def truthy_def split: responseUrl.splits if_splits sum.splits option.splits)

lemma attemptSilentAuthWithScope_truthy:
  "fst (attemptSilentAuthWithScope sc st) = Inr ti \<Longrightarrow> ti_accessToken ti \<noteq> []"
  by (auto simp: attemptSilentAuthWithScope_def split_beta extractTokenFromUrl_truthy
           split: flowResult.splits)

lemma performSilentAuth_truthy:
  "fst (performSilentAuth st) = Some ti \<Longrightarrow> ti_accessToken ti \<noteq> []"
  by (auto simp: performSilentAuth_def split_beta attemptSilentAuthWithScope_truthy
           split: sum.splits)

lemma performOAuth2Flow_truthy:
  "fst (performOAuth2Flow st) = Inr ti \<Longrightarrow> ti_accessToken ti \<noteq> []"
  by (auto simp: performOAuth2Flow_def attemptOAuth2WithScope_def split_beta
           dest: extractTokenFromUrl_truthy split: flowResult.splits sum.splits)

lemma display_tasks_attemptSilentAuthWithScope [simp]:
  "display_tasks (snd (attemptSilentAuthWithScope sc st)) = display_tasks st"
  by (simp add: attemptSilentAuthWithScope_def split_beta split: flowResult.splits)

lemma display_tasks_handleTokenExpiry [simp]:
  "display_tasks (snd (handleTokenExpiry st)) = display_tasks st"
  by (simp add: handleTokenExpiry_def performSilentAuth_def split_beta
           split: option.splits sum.splits)

lemma display_tasks_performOAuth2Flow [simp]:
  "display_tasks (snd (performOAuth2Flow st)) = display_tasks st"
  by (simp add: performOAuth2Flow_def attemptOAuth2WithScope_def split_beta
           split: sum.splits flowResult.splits)

lemma handleTokenExpiry_truthy:
  "fst (handleTokenExpiry st) = Some tok \<Longrightarrow> truthy (Some tok)"
  by (auto simp: handleTokenExpiry_def split_beta truthy_def
           dest: performSilentAuth_truthy split: option.splits)

lemma handleTokenExpiry_None:
  "fst (handleTokenExpiry st) = None \<Longrightarrow>
     accessToken (snd (handleTokenExpiry st)) = None
     \<and> local_storage (snd (handleTokenExpiry st))
         = \<lparr>stored_accessToken = None, stored_tokenExpiry = None, stored_sessionInfo = None\<rparr>"
  by (auto simp: handleTokenExpiry_def split_beta split: option.splits)

lemma handleTokenExpiry_Some:
  "fst (handleTokenExpiry st) = Some tok \<Longrightarrow> accessToken (snd (handleTokenExpiry st)) = Some tok"
  by (auto simp: handleTokenExpiry_def split_beta split: option.splits)

lemma interactive_flows_attemptSilentAuthWithScope [simp]:
  "interactive_flows (snd (attemptSilentAuthWithScope sc st)) = interactive_flows st"
  by (simp add: attemptSilentAuthWithScope_def split_beta interactive_flows_def
           split: flowResult.splits)

lemma interactive_flows_performSilentAuth [simp]:
  "interactive_flows (snd (performSilentAuth st)) = interactive_flows st"
  by (simp add: performSilentAuth_def split_beta split: sum.splits)

lemma interactive_flows_updates [simp]:
  "interactive_flows (st\<lparr>accessToken := a\<rparr>) = interactive_flows st"
  "interactive_flows (cacheToken tok ex st) = interactive_flows st"
  "interactive_flows (clearCachedAuth st) = interactive_flows st"
  "interactive_flows (snd (fetch req st)) = interactive_flows st"
  by (simp_all add: interactive_flows_def)

lemma interactive_flows_handleTokenExpiry [simp]:
  "interactive_flows (snd (handleTokenExpiry st)) = interactive_flows st"
  by (simp add: handleTokenExpiry_def split_beta split: option.splits)

lemma getCachedToken_cleared [simp]:
  "getCachedToken e t \<lparr>stored_accessToken = None, stored_tokenExpiry = None,
                        stored_sessionInfo = None\<rparr> = None"
  by (simp add: getCachedToken_def truthy_def)

lemma flow_log_attemptOAuth2WithScope:
  "flow_log (snd (attemptOAuth2WithScope sc st))
     = flow_log st @ [\<lparr>a_scope = sc, a_state = fst (generateState_next st), a_interactive = True\<rparr>]"
  by (simp add: attemptOAuth2WithScope_def split_beta split: flowResult.splits sum.splits)

lemma flow_log_performOAuth2Flow:
  "flow_log (snd (performOAuth2Flow st))
     = flow_log st @ [\<lparr>a_scope = scopes ! 0, a_state = fst (generateState_next st),
                        a_interactive = True\<rparr>]"
  by (simp add: performOAuth2Flow_def split_beta flow_log_attemptOAuth2WithScope split: sum.splits)

lemma generateState_next_frame [simp]:
  "fst (generateState_next (log m st)) = fst (generateState_next st)"
  "fst (generateState_next (showLoading b st)) = fst (generateState_next st)"
  by (simp_all add: generateState_next_def log_def showLoading_def)

lemma accessToken_performOAuth2Flow [simp]:
  "accessToken (snd (performOAuth2Flow st)) = accessToken st"
  by (simp add: performOAuth2Flow_def attemptOAuth2WithScope_def split_beta
           split: sum.splits flowResult.splits)

lemma local_storage_performOAuth2Flow [simp]:
  "local_storage (snd (performOAuth2Flow st)) = local_storage st"
  by (simp add: performOAuth2Flow_def attemptOAuth2WithScope_def split_beta
           split: sum.splits flowResult.splits)

lemma authenticate_cache_miss_eq:
  assumes "getCachedToken (storage_lastError st) (now st) (local_storage st) = None"
  shows "authenticate st =
           (case performOAuth2Flow (showLoading True (log ''Authenticating with Azure AD...'' st)) of
              (Inl error, st3) \<Rightarrow>
                (Inl error, showLoading False (logError ''Authentication error'' (Some error) st3))
            | (Inr tokenInfo, st3) \<Rightarrow>
                (Inr (ti_accessToken tokenInfo),
                 showLoading False
                   (log ''Authentication successful''
                      (cacheToken (ti_accessToken tokenInfo) (ti_expiresIn tokenInfo)
                         (updateTenantAndUserDisplay (ti_accessToken tokenInfo)
                            (st3\<lparr>accessToken := Some (ti_accessToken tokenInfo)\<rparr>))))))"
proof -
  have "getCachedToken (storage_lastError (showLoading True (log ''Authenticating with Azure AD...'' st)))
          (now (showLoading True (log ''Authenticating with Azure AD...'' st)))
          (local_storage (showLoading True (log ''Authenticating with Azure AD...'' st))) = None"
    using assms by (simp add: showLoading_def log_def)
  then show ?thesis
    by (simp add: authenticate_def Let_def truthy_def)
qed

lemma authenticate_cache_miss:
  assumes "getCachedToken (storage_lastError st) (now st) (local_storage st) = None"
  shows "fetch_log (snd (authenticate st))
           = fetch_log st
             @ (case fst (authenticate st) of
                  Inl e \<Rightarrow> []
                | Inr tok \<Rightarrow> [getUserInfo_request (st\<lparr>accessToken := Some tok\<rparr>)])"
    and "flow_log (snd (authenticate st))
           = flow_log st @ [\<lparr>a_scope = scopes ! 0, a_state = fst (generateState_next st),
                              a_interactive = True\<rparr>]"
    and "fst (authenticate st) = Inr tok \<Longrightarrow> accessToken (snd (authenticate st)) = Some tok"
    and "fst (authenticate st) = Inl e \<Longrightarrow> accessToken (snd (authenticate st)) = accessToken st"
    and "fst (authenticate st) = Inl e \<Longrightarrow> local_storage (snd (authenticate st)) = local_storage st"
    and "fst (authenticate st) = Inr tok \<Longrightarrow>
         display_tasks (snd (authenticate st))
           = display_tasks st @ [AwaitingUserInfo tok (Some (length (fetch_log st)))]"
  by (auto simp: authenticate_cache_miss_eq [OF assms] split_beta flow_log_performOAuth2Flow
        fetch_log_updateTenantAndUserDisplay truthy_def getUserInfo_request_def
        updateTenantAndUserDisplay_def fetch_issue_def
           dest: performOAuth2Flow_truthy split: sum.splits)

subsection \<open>The anti-forgery check\<close>

lemma extractTokenFromUrl_mismatch:
  "params_get params ''state'' \<noteq> Some expectedState \<Longrightarrow>
   extractTokenFromUrl d (Url params) expectedState
     = Inl (Error ''State parameter mismatch - possible CSRF attack'')"
  by (simp add: extractTokenFromUrl_def)

lemma attemptOAuth2WithScope_mismatch:
  assumes "identity st (length (flow_log st))
             \<lparr>a_scope = sc, a_state = fst (generateState_next st), a_interactive = True\<rparr>
           = ResponseUrl (Url params)"
    and "params_get params ''state'' \<noteq> Some (fst (generateState_next st))"
  shows "fst (attemptOAuth2WithScope sc st)
           = Inl (Error ''State parameter mismatch - possible CSRF attack'')"
proof -
  have "fst (launchWebAuthFlow
               \<lparr>a_scope = sc, a_state = fst (generateState_next st), a_interactive = True\<rparr>
               (snd (generateState_next st))) = ResponseUrl (Url params)"
    using assms(1) by (simp add: launchWebAuthFlow_def generateState_next_def)
  then show ?thesis
    using assms(2)
    by (simp add: attemptOAuth2WithScope_def split_beta extractTokenFromUrl_mismatch)
qed

lemma performOAuth2Flow_mismatch:
  assumes "identity st (length (flow_log st))
             \<lparr>a_scope = scopes ! 0, a_state = fst (generateState_next st), a_interactive = True\<rparr>
           = ResponseUrl (Url params)"
    and "params_get params ''state'' \<noteq> Some (fst (generateState_next st))"
  shows "fst (performOAuth2Flow st)
           = Inl (Error ''State parameter mismatch - possible CSRF attack'')"
  using attemptOAuth2WithScope_mismatch [OF assms]
  by (simp add: performOAuth2Flow_def split_beta split: sum.splits)

lemma start_authenticate_frame [simp]:
  "identity (showLoading b (log m st)) = identity st"
  "flow_log (showLoading b (log m st)) = flow_log st"
  by (simp_all add: showLoading_def log_def)

text \<open>
  C8. When the state echoed in the fragment of the response URL differs from the state
  generated for the request, \<open>extractTokenFromUrl\<close> throws the CSRF error; and when
  that response answers the interactive flow of \<open>authenticate\<close> (no cached token), the
  authentication is rejected with this error and neither the stored credential nor the
  controller's token is written.
\<close>

theorem csrf_state_mismatch:
  "params_get params ''state'' \<noteq> Some expectedState \<Longrightarrow>
     extractTokenFromUrl d (Url params) expectedState
       = Inl (Error ''State parameter mismatch - possible CSRF attack'')
     \<and> (getCachedToken (storage_lastError st) (now st) (local_storage st) = None
        \<and> fst (generateState_next st) = expectedState
        \<and> identity st (length (flow_log st))
             \<lparr>a_scope = scopes ! 0, a_state = expectedState, a_interactive = True\<rparr>
           = ResponseUrl (Url params)
        \<longrightarrow> fst (authenticate st) = Inl (Error ''State parameter mismatch - possible CSRF attack'')
            \<and> local_storage (snd (authenticate st)) = local_storage st
            \<and> accessToken (snd (authenticate st)) = accessToken st)"
proof (intro conjI impI)
  assume mismatch: "params_get params ''state'' \<noteq> Some expectedState"
  then show "extractTokenFromUrl d (Url params) expectedState
       = Inl (Error ''State parameter mismatch - possible CSRF attack'')"
    by (rule extractTokenFromUrl_mismatch)
  assume h: "getCachedToken (storage_lastError st) (now st) (local_storage st) = None
        \<and> fst (generateState_next st) = expectedState
        \<and> identity st (length (flow_log st))
             \<lparr>a_scope = scopes ! 0, a_state = expectedState, a_interactive = True\<rparr>
           = ResponseUrl (Url params)"
  let ?st1 = "showLoading True (log ''Authenticating with Azure AD...'' st)"
  have "fst (performOAuth2Flow ?st1)
          = Inl (Error ''State parameter mismatch - possible CSRF attack'')"
    using h mismatch by (intro performOAuth2Flow_mismatch [where params = params]) simp_all
  then show rejected: "fst (authenticate st)
          = Inl (Error ''State parameter mismatch - possible CSRF attack'')"
    using h by (simp add: authenticate_cache_miss_eq split_beta split: sum.splits)
  show "local_storage (snd (authenticate st)) = local_storage st"
    using h rejected by (intro authenticate_cache_miss(5)) simp_all
  show "accessToken (snd (authenticate st)) = accessToken st"
    using h rejected by (intro authenticate_cache_miss(4)) simp_all
qed

lemma length_generateState_next: "length (fst (generateState_next st)) = 8"
  by (simp add: generateState_next_def length_generateState)

lemma new_manager_fields [simp]:
  "local_storage (new_manager net idp parse)
     = \<lparr>stored_accessToken = None, stored_tokenExpiry = None, stored_sessionInfo = None\<rparr>"
  "identity (new_manager net idp parse) = idp"
  "network (new_manager net idp parse) = net"
  "JSON_parse (new_manager net idp parse) = parse"
  "flow_log (new_manager net idp parse) = []"
  "fetch_log (new_manager net idp parse) = []"
  "accessToken (new_manager net idp parse) = None"
  by (simp_all add: new_manager_def)

theorem csrf_state_mismatch_witness:
  "params_get forged_params ''state''
     \<noteq> Some (fst (generateState_next (new_manager no_network forging_identity no_parse)))
   \<and> extractTokenFromUrl Inr (Url forged_params)
        (fst (generateState_next (new_manager no_network forging_identity no_parse)))
      = Inl (Error ''State parameter mismatch - possible CSRF attack'')
   \<and> fst (authenticate (new_manager no_network forging_identity no_parse))
      = Inl (Error ''State parameter mismatch - possible CSRF attack'')
   \<and> local_storage (snd (authenticate (new_manager no_network forging_identity no_parse)))
      = \<lparr>stored_accessToken = None, stored_tokenExpiry = None, stored_sessionInfo = None\<rparr>
   \<and> accessToken (snd (authenticate (new_manager no_network forging_identity no_parse))) = None"
proof -
  have "fst (generateState_next (new_manager no_network forging_identity no_parse)) \<noteq> ''forged''"
    using length_generateState_next [of "new_manager no_network forging_identity no_parse"]
    by auto
  then have mismatch: "params_get forged_params ''state''
     \<noteq> Some (fst (generateState_next (new_manager no_network forging_identity no_parse)))"
    by (auto simp: params_get_def forged_params_def)
  show ?thesis
    using mismatch
      csrf_state_mismatch [of forged_params
        "fst (generateState_next (new_manager no_network forging_identity no_parse))"
        Inr "new_manager no_network forging_identity no_parse"]
    by (simp add: forging_identity_def)
qed

subsection \<open>The sku guard\<close>

text \<open>
  C7. When the sku selected in the sku dropdown equals the current sku of the selected
  capacity, \<open>updateCapacitySku\<close> logs \<open>No SKU change required\<close> and returns; it sends
  no request and changes nothing else.
\<close>

theorem sku_noop_guard:
  "array_get (capacities st) (parseInt (capacitySelect_value st)) = Some capacity \<Longrightarrow>
   skuSelect_value st = or_else (e_sku capacity) ''Unknown'' \<Longrightarrow>
   updateCapacitySku st = (Inr (), log ''No SKU change required'' st)
   \<and> fetch_log (snd (updateCapacitySku st)) = fetch_log st"
proof -
  assume cap: "array_get (capacities st) (parseInt (capacitySelect_value st)) = Some capacity"
    and sku: "skuSelect_value st = or_else (e_sku capacity) ''Unknown''"
  have "capacitySelect_value st \<noteq> []"
    using cap by (auto simp: array_get_def parseInt_def Let_def)
  moreover have "skuSelect_value st \<noteq> []"
    using sku by (auto simp: or_else_def truthy_def split: option.splits)
  ultimately have "updateCapacitySku st = (Inr (), log ''No SKU change required'' st)"
    using cap sku by (simp add: updateCapacitySku_def Let_def)
  then show ?thesis by simp
qed

lemma parseInt_1: "parseInt ''1'' = Some 1"
  by (simp add: parseInt_def isWhiteSpace_def isDigit_def digit_value_def digits_value_def Let_def)

lemma popup_ABC_selected:
  "array_get (capacities (popup_ABC net idp parse))
     (parseInt (capacitySelect_value (popup_ABC net idp parse))) = Some capacity_B"
  by (simp add: popup_ABC_def new_manager_def parseInt_1 array_get_def)

theorem sku_noop_guard_witness:
  "skuSelect_value (popup_ABC no_network forging_identity no_parse)
     = or_else (e_sku capacity_B) ''Unknown''
   \<and> updateCapacitySku (popup_ABC no_network forging_identity no_parse)
       = (Inr (), log ''No SKU change required'' (popup_ABC no_network forging_identity no_parse))
   \<and> fetch_log (snd (updateCapacitySku (popup_ABC no_network forging_identity no_parse))) = []"
proof -
  have sku: "skuSelect_value (popup_ABC no_network forging_identity no_parse)
     = or_else (e_sku capacity_B) ''Unknown''"
    by (simp add: popup_ABC_def new_manager_def capacity_B_def or_else_def truthy_def)
  have "fetch_log (popup_ABC no_network forging_identity no_parse) = []"
    by (simp add: popup_ABC_def)
  then show ?thesis
    using sku sku_noop_guard [OF popup_ABC_selected sku]
    by simp
qed

subsection \<open>The expiry buffer\<close>

lemma parseInt_1700000100000: "parseInt ''1700000100000'' = Some 1700000100000"
  by (simp add: parseInt_def isWhiteSpace_def isDigit_def digit_value_def digits_value_def Let_def)

text \<open>
  C3. A cached credential whose remaining lifetime \<open>expiresAt - now\<close> is below the
  buffer is not returned: \<open>getCachedToken\<close> resolves \<open>null\<close> (two-minute buffer in
  popup.js, five-minute buffer in the earlier revision), and \<open>authenticate\<close> then
  launches the interactive authorization flow.
\<close>

theorem expiry_buffer:
  "stored_tokenExpiry (local_storage st) = Some expiry \<Longrightarrow>
   parseInt expiry = Some expiresAt \<Longrightarrow>
   (expiresAt - now st < bufferTime \<longrightarrow>
      getCachedToken (storage_lastError st) (now st) (local_storage st) = None
      \<and> flow_log (snd (authenticate st))
          = flow_log st @ [\<lparr>a_scope = scopes ! 0, a_state = fst (generateState_next st),
                             a_interactive = True\<rparr>])
   \<and> (expiresAt - now st < bufferTime_rev1 \<longrightarrow>
      getCachedToken_rev1 (storage_lastError st) (now st) (local_storage st) = None)
   \<and> 2 * 60 * 1000 \<le> bufferTime \<and> 2 * 60 * 1000 \<le> bufferTime_rev1"
proof (intro conjI impI)
  assume e: "stored_tokenExpiry (local_storage st) = Some expiry" "parseInt expiry = Some expiresAt"
  show "2 * 60 * 1000 \<le> bufferTime" "2 * 60 * 1000 \<le> bufferTime_rev1"
    by (simp_all add: bufferTime_def bufferTime_rev1_def)
  {
    assume "expiresAt - now st < bufferTime_rev1"
    then show "getCachedToken_rev1 (storage_lastError st) (now st) (local_storage st) = None"
      using e by (simp add: getCachedToken_rev1_def)
  }
  assume "expiresAt - now st < bufferTime"
  then show miss: "getCachedToken (storage_lastError st) (now st) (local_storage st) = None"
    using e by (simp add: getCachedToken_def)
  show "flow_log (snd (authenticate st))
          = flow_log st @ [\<lparr>a_scope = scopes ! 0, a_state = fst (generateState_next st),
                             a_interactive = True\<rparr>]"
    by (rule authenticate_cache_miss(2) [OF miss])
qed

theorem expiry_buffer_witness:
  "1700000100000 - now almost_expired < bufferTime
   \<and> getCachedToken (storage_lastError almost_expired) (now almost_expired)
        (local_storage almost_expired) = None
   \<and> getCachedToken_rev1 (storage_lastError almost_expired) (now almost_expired)
        (local_storage almost_expired) = None
   \<and> flow_log (snd (authenticate almost_expired))
       = [\<lparr>a_scope = scopes ! 0, a_state = fst (generateState_next almost_expired),
           a_interactive = True\<rparr>]"
proof -
  have fields: "stored_tokenExpiry (local_storage almost_expired) = Some ''1700000100000''"
    "now almost_expired = 1700000000000" "flow_log almost_expired = []"
    by (simp_all add: almost_expired_def new_manager_def)
  show ?thesis
    using expiry_buffer [OF fields(1) parseInt_1700000100000]
    by (simp add: fields(2,3) bufferTime_def bufferTime_rev1_def)
qed

subsection \<open>The retry of the API client\<close>

lemma ui_viewD:
  "ui_view a = ui_view b \<Longrightarrow>
     capacities a = capacities b \<and> capacitySelect_value a = capacitySelect_value b
     \<and> network a = network b \<and> identity a = identity b \<and> JSON_parse a = JSON_parse b
     \<and> decodeURIComponent a = decodeURIComponent b \<and> random_words a = random_words b
     \<and> now a = now b \<and> storage_lastError a = storage_lastError b
     \<and> skuSelect_value a = skuSelect_value b \<and> startButton_disabled a = startButton_disabled b
     \<and> stopButton_disabled a = stopButton_disabled b
     \<and> refreshButton_disabled a = refreshButton_disabled b
     \<and> capacitySelect_disabled a = capacitySelect_disabled b
     \<and> updateSkuButton_disabled a = updateSkuButton_disabled b
     \<and> skuSelect_disabled a = skuSelect_disabled b
     \<and> skuContainer_display a = skuContainer_display b
     \<and> initialLoadComplete a = initialLoadComplete b \<and> confirm_answer a = confirm_answer b"
  by (simp add: ui_view_def)

lemma fetch_result: "fst (fetch options st) = network st (length (fetch_log st)) options"
  by (simp add: fetch_def fetch_issue_def)

lemma makeApiCall_unfold:
  "truthy (accessToken st) \<Longrightarrow>
   makeApiCall url method body st
     = makeApiCall_continue (first_request url method body st) method
         (network st (length (fetch_log st)) (first_request url method body st))
         (after_first_request url method body st)"
  by (simp add: makeApiCall_def Let_def first_request_def after_first_request_def split_beta fetch_result)

lemma retry_request_update:
  "(first_request url method body st)\<lparr>req_authorization := ''Bearer '' @ token\<rparr>
     = retry_request url method body token"
  by (simp add: first_request_def retry_request_def)

lemma parse_text_cong: "JSON_parse a = JSON_parse b \<Longrightarrow> parse_text r a = parse_text r b"
  by (simp add: parse_text_def)

lemma not_ok_401: "r_status response = 401 \<Longrightarrow> \<not> response_ok response"
  by (simp add: response_ok_def)

lemma after_first_request_fields [simp]:
  "fetch_log (after_first_request url method body st) = fetch_log st @ [first_request url method body st]"
  "ui_view (after_first_request url method body st) = ui_view st"
  "interactive_flows (after_first_request url method body st) = interactive_flows st"
  by (simp_all add: after_first_request_def)


lemma network_frame [simp]:
  "network (snd (handleTokenExpiry st)) = network st"
  "network (snd (authenticate st)) = network st"
  "network (snd (fetch r st)) = network st"
  "network (after_first_request url method body st) = network st"
  using ui_viewD [OF ui_view_handleTokenExpiry [of st]] ui_viewD [OF ui_view_authenticate [of st]]
    ui_viewD [OF ui_view_primitives(7) [of r st]] ui_viewD [OF after_first_request_fields(2) [of url "method" "body" st]]
  by simp_all

lemma JSON_parse_frame [simp]:
  "JSON_parse (snd (handleTokenExpiry st)) = JSON_parse st"
  "JSON_parse (snd (authenticate st)) = JSON_parse st"
  "JSON_parse (snd (fetch r st)) = JSON_parse st"
  "JSON_parse (after_first_request url method body st) = JSON_parse st"
  using ui_viewD [OF ui_view_handleTokenExpiry [of st]] ui_viewD [OF ui_view_authenticate [of st]]
    ui_viewD [OF ui_view_primitives(7) [of r st]] ui_viewD [OF after_first_request_fields(2) [of url "method" "body" st]]
  by simp_all

lemma retry_result_ok:
  "response_ok rr \<Longrightarrow>
   retry_result failed method rr st
     = (if method = ''POST'' \<and> r_status rr = 202
           \<or> method = ''PATCH'' \<and> (r_status rr = 200 \<or> r_status rr = 202)
        then Inr SuccessMarker else parse_text rr st)"
  by (auto simp: retry_result_def)

lemma retry_result_failed:
  "\<not> response_ok rr \<Longrightarrow>
   retry_result failed method rr st
     = Inl (Error (if r_status rr = 403
                   then ''Insufficient permissions. Admin consent may be required for full functionality.''
                   else failed @ toString (int (r_status rr)) @ '' '' @ r_statusText rr))"
  by (simp add: retry_result_def)

lemma silent_retry:
  assumes "truthy (accessToken st)"
    and "network st (length (fetch_log st)) (first_request url method body st) = Inr response"
    and "r_status response = 401"
    and "fst (handleTokenExpiry (after_first_request url method body st)) = Some token"
    and "network st (Suc (length (fetch_log st))) (retry_request url method body token) = Inr rr"
  shows "fst (makeApiCall url method body st)
           = retry_result ''API call failed after retry: '' method rr st"
    and "fetch_log (snd (makeApiCall url method body st))
           = fetch_log st @ [first_request url method body st, retry_request url method body token]"
proof -
  have t: "truthy (fst (handleTokenExpiry (after_first_request url method body st)))"
    using handleTokenExpiry_truthy [OF assms(4)] assms(4) by simp
  have same: "retry_result ''API call failed after retry: '' method rr
                (snd (fetch (retry_request url method body token)
                        (snd (handleTokenExpiry (after_first_request url method body st)))))
              = retry_result ''API call failed after retry: '' method rr st"
    by (auto simp: retry_result_def parse_text_def)
  show "fst (makeApiCall url method body st)
           = retry_result ''API call failed after retry: '' method rr st"
    using assms t
    by (simp add: makeApiCall_unfold makeApiCall_continue_def not_ok_401 split_beta
          retry_request_update [simplified] fetch_result same)
  show "fetch_log (snd (makeApiCall url method body st))
           = fetch_log st @ [first_request url method body st, retry_request url method body token]"
    using assms t
    by (simp add: makeApiCall_unfold makeApiCall_continue_def not_ok_401 split_beta
          retry_request_update [simplified] fetch_result)
qed


lemma falsy_None: "\<not> truthy None"
  by (simp add: truthy_def)

lemma interactive_retry:
  assumes "truthy (accessToken st)"
    and "network st (length (fetch_log st)) (first_request url method body st) = Inr response"
    and "r_status response = 401"
    and silent: "fst (handleTokenExpiry (after_first_request url method body st)) = None"
  shows "interactive_flows (snd (makeApiCall url method body st))
           = interactive_flows st
             @ [\<lparr>a_scope = scopes ! 0,
                 a_state = fst (generateState_next
                                  (snd (handleTokenExpiry (after_first_request url method body st)))),
                 a_interactive = True\<rparr>]"
    and "fst (authenticate (snd (handleTokenExpiry (after_first_request url method body st)))) = Inl e
         \<Longrightarrow> fst (makeApiCall url method body st) = Inl e
             \<and> fetch_log (snd (makeApiCall url method body st))
                 = fetch_log st @ [first_request url method body st]"
    and "fst (authenticate (snd (handleTokenExpiry (after_first_request url method body st)))) = Inr token
         \<Longrightarrow> fetch_log (snd (makeApiCall url method body st))
               = fetch_log st @ [first_request url method body st,
                                 getUserInfo_request (st\<lparr>accessToken := Some token\<rparr>),
                                 retry_request url method body token]"
    and "fst (authenticate (snd (handleTokenExpiry (after_first_request url method body st)))) = Inr token
         \<Longrightarrow> network st (length (fetch_log st) + 2) (retry_request url method body token) = Inr rr
         \<Longrightarrow> fst (makeApiCall url method body st)
               = retry_result ''API call failed after authentication retry: '' method rr st"
    and "fst (authenticate (snd (handleTokenExpiry (after_first_request url method body st)))) = Inr token
         \<Longrightarrow> display_tasks (snd (makeApiCall url method body st))
               = display_tasks st @ [AwaitingUserInfo token (Some (Suc (length (fetch_log st))))]
             \<and> accessToken (snd (makeApiCall url method body st)) = Some token"
proof -
  let ?st2 = "snd (handleTokenExpiry (after_first_request url method body st))"
  have miss: "getCachedToken (storage_lastError ?st2) (now ?st2) (local_storage ?st2) = None"
    using handleTokenExpiry_None [OF silent] by simp
  note auth = authenticate_cache_miss [OF miss]
  have call: "makeApiCall url method body st
      = (case authenticate ?st2 of
           (Inl error, st3) \<Rightarrow> (Inl error, st3)
         | (Inr token, st3) \<Rightarrow>
             (case fetch ((first_request url method body st)
                            \<lparr>req_authorization :=
                               ''Bearer '' @ (case accessToken st3 of None \<Rightarrow> ''null''
                                              | Some t \<Rightarrow> t)\<rparr>) st3 of
                (Inl error, st4) \<Rightarrow> (Inl error, st4)
              | (Inr retryResponse, st4) \<Rightarrow>
                  (retry_result ''API call failed after authentication retry: '' method
                     retryResponse st4, st4)))"
    using assms
    by (simp add: makeApiCall_unfold makeApiCall_continue_def not_ok_401 split_beta falsy_None)
  have flows: "interactive_flows (snd (authenticate ?st2))
      = interactive_flows st
        @ [\<lparr>a_scope = scopes ! 0, a_state = fst (generateState_next ?st2), a_interactive = True\<rparr>]"
  proof -
    have "interactive_flows (snd (authenticate ?st2))
      = interactive_flows ?st2
        @ [\<lparr>a_scope = scopes ! 0, a_state = fst (generateState_next ?st2), a_interactive = True\<rparr>]"
      using auth(2) by (simp add: interactive_flows_def)
    then show ?thesis by simp
  qed
  show "interactive_flows (snd (makeApiCall url method body st))
           = interactive_flows st
             @ [\<lparr>a_scope = scopes ! 0, a_state = fst (generateState_next ?st2),
                 a_interactive = True\<rparr>]"
    using flows by (simp add: call split_beta split: sum.splits)
  {
    assume "fst (authenticate ?st2) = Inl e"
    then show "fst (makeApiCall url method body st) = Inl e
             \<and> fetch_log (snd (makeApiCall url method body st))
                 = fetch_log st @ [first_request url method body st]"
      using auth(1) by (simp add: call split_beta)
  }
  {
    assume ok: "fst (authenticate ?st2) = Inr token"
    then have tok: "accessToken (snd (authenticate ?st2)) = Some token"
      by (rule auth(3))
    show "fetch_log (snd (makeApiCall url method body st))
               = fetch_log st @ [first_request url method body st,
                                 getUserInfo_request (st\<lparr>accessToken := Some token\<rparr>),
                                 retry_request url method body token]"
      using ok tok auth(1)
      by (simp add: call split_beta retry_request_update [simplified] split: sum.splits)
    assume "network st (length (fetch_log st) + 2) (retry_request url method body token) = Inr rr"
    moreover have "retry_result ''API call failed after authentication retry: '' method rr
                (snd (fetch (retry_request url method body token) (snd (authenticate ?st2))))
              = retry_result ''API call failed after authentication retry: '' method rr st"
      by (auto simp: retry_result_def parse_text_def)
    ultimately show "fst (makeApiCall url method body st)
               = retry_result ''API call failed after authentication retry: '' method rr st"
      using ok tok auth(1)
      by (simp add: call split_beta retry_request_update [simplified] fetch_result)
  }
  {
    assume ok: "fst (authenticate ?st2) = Inr token"
    then have tok: "accessToken (snd (authenticate ?st2)) = Some token"
      by (rule auth(3))
    show "display_tasks (snd (makeApiCall url method body st))
               = display_tasks st @ [AwaitingUserInfo token (Some (Suc (length (fetch_log st))))]
             \<and> accessToken (snd (makeApiCall url method body st)) = Some token"
      using ok tok auth(6) [OF ok]
      by (simp add: call split_beta after_first_request_def split: sum.splits)
  }
qed


text \<open>
  C1. A request of \<open>makeApiCall\<close> that is answered with 401: when the silent renewal
  yields a token and the retried request succeeds, the result is what \<open>JSON.parse\<close>
  makes of the body of the retried response (\<open>{}\<close> for an empty body, the success
  marker for an accepted \<open>POST\<close> or \<open>PATCH\<close>) and exactly two requests have been
  sent, the second with the new token. When the silent renewal fails, exactly one
  interactive flow is launched; if it succeeds, the request is sent once more with the
  new token, after the Graph request that the sign-in starts for the display, and if
  that response is not a success either the call ends with an error and no further
  request.
\<close>

theorem makeApiCall_401_retry_once:
  "truthy (accessToken st) \<Longrightarrow>
   network st (length (fetch_log st)) (first_request url method body st) = Inr response \<Longrightarrow>
   r_status response = 401 \<Longrightarrow>
   (\<forall>token rr.
       fst (handleTokenExpiry (after_first_request url method body st)) = Some token
       \<and> network st (Suc (length (fetch_log st))) (retry_request url method body token) = Inr rr
       \<and> response_ok rr
       \<longrightarrow> fst (makeApiCall url method body st)
             = (if method = ''POST'' \<and> r_status rr = 202
                   \<or> method = ''PATCH'' \<and> (r_status rr = 200 \<or> r_status rr = 202)
                then Inr SuccessMarker
                else if r_text rr = [] then Inr EmptyObject
                else (case JSON_parse st (r_text rr) of
                        Inl e \<Rightarrow> Inl e
                      | Inr v \<Rightarrow> Inr (Parsed v)))
           \<and> fetch_log (snd (makeApiCall url method body st))
               = fetch_log st @ [first_request url method body st,
                                 retry_request url method body token])
   \<and> (fst (handleTokenExpiry (after_first_request url method body st)) = None
       \<longrightarrow> interactive_flows (snd (makeApiCall url method body st))
             = interactive_flows st
               @ [\<lparr>a_scope = scopes ! 0,
                   a_state = fst (generateState_next
                                    (snd (handleTokenExpiry (after_first_request url method body st)))),
                   a_interactive = True\<rparr>]
           \<and> (\<forall>token.
                 fst (authenticate (snd (handleTokenExpiry (after_first_request url method body st))))
                   = Inr token
                 \<longrightarrow> fetch_log (snd (makeApiCall url method body st))
                       = fetch_log st @ [first_request url method body st,
                                         getUserInfo_request (st\<lparr>accessToken := Some token\<rparr>),
                                         retry_request url method body token]
                     \<and> (\<forall>rr. network st (length (fetch_log st) + 2)
                                  (retry_request url method body token) = Inr rr
                               \<and> \<not> response_ok rr
                           \<longrightarrow> fst (makeApiCall url method body st)
                                 = Inl (Error
                                     (if r_status rr = 403
                                      then ''Insufficient permissions. Admin consent may be required for full functionality.''
                                      else ''API call failed after authentication retry: ''
                                           @ toString (int (r_status rr)) @ '' ''
                                           @ r_statusText rr)))))"
proof (intro conjI allI impI)
  assume a: "truthy (accessToken st)"
    "network st (length (fetch_log st)) (first_request url method body st) = Inr response"
    "r_status response = 401"
  {
    fix token rr
    assume h: "fst (handleTokenExpiry (after_first_request url method body st)) = Some token
       \<and> network st (Suc (length (fetch_log st))) (retry_request url method body token) = Inr rr
       \<and> response_ok rr"
    show "fst (makeApiCall url method body st)
             = (if method = ''POST'' \<and> r_status rr = 202
                   \<or> method = ''PATCH'' \<and> (r_status rr = 200 \<or> r_status rr = 202)
                then Inr SuccessMarker
                else if r_text rr = [] then Inr EmptyObject
                else (case JSON_parse st (r_text rr) of
                        Inl e \<Rightarrow> Inl e
                      | Inr v \<Rightarrow> Inr (Parsed v)))"
      using silent_retry(1) [OF a, of token rr] h by (auto simp: retry_result_ok parse_text_def)
    show "fetch_log (snd (makeApiCall url method body st))
               = fetch_log st @ [first_request url method body st,
                                 retry_request url method body token]"
      using silent_retry(2) [OF a, of token rr] h by simp
  }
  assume silent: "fst (handleTokenExpiry (after_first_request url method body st)) = None"
  show "interactive_flows (snd (makeApiCall url method body st))
             = interactive_flows st
               @ [\<lparr>a_scope = scopes ! 0,
                   a_state = fst (generateState_next
                                    (snd (handleTokenExpiry (after_first_request url method body st)))),
                   a_interactive = True\<rparr>]"
    by (rule interactive_retry(1) [OF a silent])
  fix token
  assume ok: "fst (authenticate (snd (handleTokenExpiry (after_first_request url method body st)))) = Inr token"
  show "fetch_log (snd (makeApiCall url method body st))
                       = fetch_log st @ [first_request url method body st,
                                         getUserInfo_request (st\<lparr>accessToken := Some token\<rparr>),
                                         retry_request url method body token]"
    by (rule interactive_retry(3) [OF a silent ok])
  fix rr
  assume "network st (length (fetch_log st) + 2) (retry_request url method body token) = Inr rr
            \<and> \<not> response_ok rr"
  then show "fst (makeApiCall url method body st)
                                 = Inl (Error
                                     (if r_status rr = 403
                                      then ''Insufficient permissions. Admin consent may be required for full functionality.''
                                      else ''API call failed after authentication retry: ''
                                           @ toString (int (r_status rr)) @ '' ''
                                           @ r_statusText rr))"
    using interactive_retry(4) [OF a silent ok, of rr] by (simp add: retry_result_failed)
qed


lemma generateState_next_collaborators [simp]:
  "identity (snd (generateState_next st)) = identity st"
  "decodeURIComponent (snd (generateState_next st)) = decodeURIComponent st"
  by (simp_all add: generateState_next_def)

lemma extract_echo:
  "extractTokenFromUrl d (Url [(''access_token'', ''T1''), (''state'', state)]) state
     = Inr \<lparr>ti_accessToken = ''T1'', ti_expiresIn = Some 3600, ti_tokenType = None\<rparr>"
  by (simp add: extractTokenFromUrl_def params_get_def truthy_def)

lemma attemptSilentAuthWithScope_echo:
  "identity st = echo_identity \<Longrightarrow>
   fst (attemptSilentAuthWithScope sc st)
     = Inr \<lparr>ti_accessToken = ''T1'', ti_expiresIn = Some 3600, ti_tokenType = None\<rparr>"
  by (simp add: attemptSilentAuthWithScope_def split_beta launchWebAuthFlow_def echo_identity_def
        extract_echo)

lemma handleTokenExpiry_echo:
  "identity st = echo_identity \<Longrightarrow> fst (handleTokenExpiry st) = Some ''T1''"
  by (simp add: handleTokenExpiry_def performSilentAuth_def split_beta
        attemptSilentAuthWithScope_echo)

lemma identity_frame [simp]:
  "identity (snd (handleTokenExpiry st)) = identity st"
  "identity (snd (attemptSilentAuthWithScope sc st)) = identity st"
  "identity (after_first_request url method body st) = identity st"
  using ui_viewD [OF ui_view_handleTokenExpiry [of st]]
    ui_viewD [OF ui_view_attemptSilentAuthWithScope [of sc st]]
    ui_viewD [OF after_first_request_fields(2) [of url "method" "body" st]]
  by simp_all

lemma attemptSilentAuthWithScope_refused:
  "identity st = interactive_only_identity \<Longrightarrow>
   fst (attemptSilentAuthWithScope sc st) = Inl (Error ''interaction_required'')"
  by (simp add: attemptSilentAuthWithScope_def split_beta launchWebAuthFlow_def
        interactive_only_identity_def)

lemma handleTokenExpiry_refused:
  "identity st = interactive_only_identity \<Longrightarrow> fst (handleTokenExpiry st) = None"
  by (simp add: handleTokenExpiry_def performSilentAuth_def split_beta
        attemptSilentAuthWithScope_refused)

lemma attemptOAuth2WithScope_echo:
  "identity st = interactive_only_identity \<Longrightarrow>
   fst (attemptOAuth2WithScope sc st)
     = Inr \<lparr>ti_accessToken = ''T1'', ti_expiresIn = Some 3600, ti_tokenType = None\<rparr>"
  by (simp add: attemptOAuth2WithScope_def split_beta launchWebAuthFlow_def
        interactive_only_identity_def echo_identity_def extract_echo)

lemma authenticate_echo:
  assumes "identity st = interactive_only_identity"
    and "getCachedToken (storage_lastError st) (now st) (local_storage st) = None"
  shows "fst (authenticate st) = Inr ''T1''"
proof -
  have "identity (showLoading True (log ''Authenticating with Azure AD...'' st))
          = interactive_only_identity"
    using assms(1) by simp
  then have "fst (performOAuth2Flow (showLoading True (log ''Authenticating with Azure AD...'' st)))
     = Inr \<lparr>ti_accessToken = ''T1'', ti_expiresIn = Some 3600, ti_tokenType = None\<rparr>"
    by (simp add: performOAuth2Flow_def split_beta attemptOAuth2WithScope_echo)
  then show ?thesis
    by (simp add: authenticate_cache_miss_eq [OF assms(2)] split_beta)
qed

lemma toString_401: "toString 401 = ''401''"
  by (simp add: toString_def toString_radix.simps digit_char_def)

lemma popup_ABC_fields [simp]:
  "accessToken (popup_ABC net idp parse) = Some ''T0''"
  "fetch_log (popup_ABC net idp parse) = []"
  "flow_log (popup_ABC net idp parse) = []"
  "network (popup_ABC net idp parse) = net"
  "identity (popup_ABC net idp parse) = idp"
  "JSON_parse (popup_ABC net idp parse) = parse"
  by (simp_all add: popup_ABC_def new_manager_def)

theorem makeApiCall_401_retry_once_witness:
  "fst (handleTokenExpiry
          (after_first_request ''u'' ''GET'' None
             (popup_ABC (unauthorized_once ''AC'') echo_identity refresh_parse))) = Some ''T1''
   \<and> fst (makeApiCall ''u'' ''GET'' None
             (popup_ABC (unauthorized_once ''AC'') echo_identity refresh_parse))
     = Inr (Parsed (Some (json_value [capacity_A, capacity_C])))
   \<and> fetch_log (snd (makeApiCall ''u'' ''GET'' None
                         (popup_ABC (unauthorized_once ''AC'') echo_identity refresh_parse)))
     = [\<lparr>req_url = ''u'', req_method = ''GET'', req_authorization = ''Bearer T0'', req_body = None\<rparr>,
        \<lparr>req_url = ''u'', req_method = ''GET'', req_authorization = ''Bearer T1'', req_body = None\<rparr>]
   \<and> fst (handleTokenExpiry
            (after_first_request ''u'' ''GET'' None
               (popup_ABC always_unauthorized interactive_only_identity no_parse))) = None
   \<and> fst (makeApiCall ''u'' ''GET'' None
             (popup_ABC always_unauthorized interactive_only_identity no_parse))
     = Inl (Error ''API call failed after authentication retry: 401 Unauthorized'')
   \<and> fetch_log (snd (makeApiCall ''u'' ''GET'' None
                         (popup_ABC always_unauthorized interactive_only_identity no_parse)))
     = [\<lparr>req_url = ''u'', req_method = ''GET'', req_authorization = ''Bearer T0'', req_body = None\<rparr>,
        \<lparr>req_url = graphUrl @ ''/v1.0/me'', req_method = ''GET'',
         req_authorization = ''Bearer T1'', req_body = None\<rparr>,
        \<lparr>req_url = ''u'', req_method = ''GET'', req_authorization = ''Bearer T1'', req_body = None\<rparr>]
   \<and> length (interactive_flows (snd (makeApiCall ''u'' ''GET'' None
                         (popup_ABC always_unauthorized interactive_only_identity no_parse)))) = 1"
proof -
  let ?A = "popup_ABC (unauthorized_once ''AC'') echo_identity refresh_parse"
  let ?B = "popup_ABC always_unauthorized interactive_only_identity no_parse"
  have tA: "truthy (accessToken ?A)" and tB: "truthy (accessToken ?B)"
    by (simp_all add: truthy_def)
  have silentA: "fst (handleTokenExpiry (after_first_request ''u'' ''GET'' None ?A)) = Some ''T1''"
    by (rule handleTokenExpiry_echo) simp
  have silentB: "fst (handleTokenExpiry (after_first_request ''u'' ''GET'' None ?B)) = None"
    by (rule handleTokenExpiry_refused) simp
  have authB: "fst (authenticate (snd (handleTokenExpiry (after_first_request ''u'' ''GET'' None ?B)))) = Inr ''T1''"
    using handleTokenExpiry_None [OF silentB] by (intro authenticate_echo) simp_all
  have "interactive_flows ?B = []"
    by (simp add: interactive_flows_def)
  then show ?thesis
    using makeApiCall_401_retry_once [of ?A "''u''" "''GET''" None
            "\<lparr>r_status = 401, r_statusText = ''Unauthorized'', r_text = []\<rparr>"]
      makeApiCall_401_retry_once [of ?B "''u''" "''GET''" None
            "\<lparr>r_status = 401, r_statusText = ''Unauthorized'', r_text = []\<rparr>"]
      tA tB silentA silentB authB
    by (simp add: unauthorized_once_def always_unauthorized_def first_request_def
          retry_request_def response_ok_def refresh_parse_def toString_401)
qed

text \<open>
  The display task that a sign-in has started goes on when its Graph request has settled
  and sends the request of \<open>checkTokenCapabilities\<close>: in the run above, where the retry
  after the interactive sign-in is answered with 401 as well, it is the fourth request.
\<close>

lemma updateTenantAndUserDisplay_resume_request:
  assumes "k < length (display_tasks st)"
    and "display_tasks st ! k = AwaitingUserInfo token sent"
    and "truthy (accessToken st)"
  shows "fetch_log (updateTenantAndUserDisplay_resume k st)
           = fetch_log st @ [checkTokenCapabilities_request st]"
  using assms by (simp add: updateTenantAndUserDisplay_resume_def fetch_issue_def)

lemma display_task_after_sign_in:
  "display_tasks (snd (makeApiCall ''u'' ''GET'' None
                         (popup_ABC always_unauthorized interactive_only_identity no_parse)))
     = [AwaitingUserInfo ''T1'' (Some 1)]
   \<and> fetch_log (updateTenantAndUserDisplay_resume 0
                   (snd (makeApiCall ''u'' ''GET'' None
                           (popup_ABC always_unauthorized interactive_only_identity no_parse))))
     = [\<lparr>req_url = ''u'', req_method = ''GET'', req_authorization = ''Bearer T0'', req_body = None\<rparr>,
        \<lparr>req_url = graphUrl @ ''/v1.0/me'', req_method = ''GET'',
         req_authorization = ''Bearer T1'', req_body = None\<rparr>,
        \<lparr>req_url = ''u'', req_method = ''GET'', req_authorization = ''Bearer T1'', req_body = None\<rparr>,
        \<lparr>req_url = baseUrl @ ''/subscriptions?api-version='' @ subscriptionApiVersion @ ''&$top=1'',
         req_method = ''GET'', req_authorization = ''Bearer T1'', req_body = None\<rparr>]"
proof -
  let ?B = "popup_ABC always_unauthorized interactive_only_identity no_parse"
  let ?end = "snd (makeApiCall ''u'' ''GET'' None ?B)"
  have tB: "truthy (accessToken ?B)"
    by (simp add: truthy_def)
  have first: "network ?B (length (fetch_log ?B)) (first_request ''u'' ''GET'' None ?B)
                 = Inr \<lparr>r_status = 401, r_statusText = ''Unauthorized'', r_text = []\<rparr>"
    by (simp add: always_unauthorized_def)
  have silentB: "fst (handleTokenExpiry (after_first_request ''u'' ''GET'' None ?B)) = None"
    by (rule handleTokenExpiry_refused) simp
  have authB: "fst (authenticate (snd (handleTokenExpiry (after_first_request ''u'' ''GET'' None ?B)))) = Inr ''T1''"
    using handleTokenExpiry_None [OF silentB] by (intro authenticate_echo) simp_all
  have tasks: "display_tasks ?end = [AwaitingUserInfo ''T1'' (Some 1)]"
    and token: "accessToken ?end = Some ''T1''"
    using interactive_retry(5) [OF tB first _ silentB authB]
    by (simp_all add: popup_ABC_def new_manager_def)
  have sent: "fetch_log ?end
      = [first_request ''u'' ''GET'' None ?B,
         getUserInfo_request (?B\<lparr>accessToken := Some ''T1''\<rparr>),
         retry_request ''u'' ''GET'' None ''T1'']"
    using interactive_retry(3) [OF tB first _ silentB authB] by simp
  have "fetch_log (updateTenantAndUserDisplay_resume 0 ?end)
          = fetch_log ?end @ [checkTokenCapabilities_request ?end]"
    by (rule updateTenantAndUserDisplay_resume_request [where token = "''T1''" and sent = "Some 1"])
       (simp_all add: tasks token truthy_def)
  then show ?thesis
    by (simp add: tasks sent token first_request_def retry_request_def
          checkTokenCapabilities_request_def)
qed

subsection \<open>Discovery tolerates a failing scope\<close>

lemma ui_view_retry_branches:
  "ui_view (snd (makeApiCall_continue options method settled st)) = ui_view st"
  by (simp add: makeApiCall_continue_def split_beta split: sum.splits)

lemma ui_view_makeApiCall [simp]: "ui_view (snd (makeApiCall url method body st)) = ui_view st"
  by (simp add: makeApiCall_def Let_def split_beta ui_view_retry_branches)


lemma ui_view_getCapacitiesForSubscription [simp]:
  "ui_view (snd (getCapacitiesForSubscription sid st)) = ui_view st"
  by (simp add: getCapacitiesForSubscription_def split_beta split: sum.splits)

lemma capacities_getCapacitiesForSubscription [simp]:
  "capacities (snd (getCapacitiesForSubscription sid st)) = capacities st"
  using ui_viewD [OF ui_view_getCapacitiesForSubscription [of sid st]] by simp


lemma length_scope_outcomes [simp]: "length (scope_outcomes subscriptions st) = length subscriptions"
  by (induction subscriptions arbitrary: st) (auto split: prod.splits sum.splits)

lemma capacities_loadCapacities_loop:
  "capacities (loadCapacities_loop subscriptions st)
     = capacities st @ concat (map found_in (scope_outcomes subscriptions st))"
proof (induction subscriptions arbitrary: st)
  case Nil
  show ?case by simp
next
  case (Cons subscription rest)
  obtain r st1 where call: "getCapacitiesForSubscription (e_subscriptionId subscription) st = (r, st1)"
    by (cases "getCapacitiesForSubscription (e_subscriptionId subscription) st")
  have same: "capacities st1 = capacities st"
    using capacities_getCapacitiesForSubscription [of "e_subscriptionId subscription" st] call
    by simp
  show ?case
  proof (cases r)
    case (Inl error)
    then show ?thesis using call same Cons.IH [of st1] by (simp add: found_in_def)
  next
    case (Inr found)
    then show ?thesis
      using call same Cons.IH [of "st1\<lparr>capacities := capacities st1 @ found\<rparr>"]
      by (simp add: found_in_def)
  qed
qed




lemma after_first_request_eq:
  "after_first_request url method body st
     = st\<lparr>fetch_log := fetch_log st @ [first_request url method body st]\<rparr>"
  by (simp add: after_first_request_def fetch_def fetch_issue_def)




lemma after_first_request_token [simp]:
  "accessToken (after_first_request url method body st) = accessToken st"
  "length (fetch_log (after_first_request url method body st)) = Suc (length (fetch_log st))"
  by (simp_all add: after_first_request_eq)

lemma discovery_start_fields [simp]:
  "accessToken (discovery_start st) = accessToken st"
  "fetch_log (discovery_start st) = fetch_log st"
  "network (discovery_start st) = network st"
  "JSON_parse (discovery_start st) = JSON_parse st"
  by (simp_all add: discovery_start_def showLoading_def log_def)

lemma discovering_fields [simp]:
  "accessToken discovering = Some ''T0''" "fetch_log discovering = []"
  "network discovering = discovery_network" "JSON_parse discovering = discovery_parse"
  by (simp_all add: discovering_def new_manager_def)

lemma getSubscriptions_state:
  "truthy (accessToken st) \<Longrightarrow>
   network st (length (fetch_log st))
     (first_request (baseUrl @ ''/subscriptions?api-version='' @ subscriptionApiVersion)
        ''GET'' None st) = Inr r \<Longrightarrow>
   response_ok r \<Longrightarrow>
   snd (getSubscriptions st)
     = after_first_request (baseUrl @ ''/subscriptions?api-version='' @ subscriptionApiVersion)
         ''GET'' None st"
  by (simp add: getSubscriptions_def split_beta makeApiCall_unfold makeApiCall_continue_def
           split: sum.splits)






subsection \<open>The selection across a refresh\<close>

lemma decimal_digit:
  assumes "d < 10"
  shows "digit_value (digit_char d) = Some d" and "\<not> isWhiteSpace (digit_char d)"
    and "digit_char d \<noteq> CHR ''-''" and "digit_char d \<noteq> CHR ''+''"
    and "digit_char d \<noteq> CHR ''x''" and "digit_char d \<noteq> CHR ''X''"
proof -
  have "d = 0 \<or> d = 1 \<or> d = 2 \<or> d = 3 \<or> d = 4 \<or> d = 5 \<or> d = 6 \<or> d = 7 \<or> d = 8 \<or> d = 9"
    using assms by arith
  then show "digit_value (digit_char d) = Some d" and "\<not> isWhiteSpace (digit_char d)"
    and "digit_char d \<noteq> CHR ''-''" and "digit_char d \<noteq> CHR ''+''"
    and "digit_char d \<noteq> CHR ''x''" and "digit_char d \<noteq> CHR ''X''"
    by (auto simp: digit_char_def digit_value_def isWhiteSpace_def)
qed

lemma toString_radix_decimal:
  "toString_radix 10 n \<noteq> [] \<and> set (toString_radix 10 n) \<subseteq> digit_char ` {..<10}"
proof (induction "10::nat" n rule: toString_radix.induct)
  case (1 n)
  show ?case
  proof (cases "n < 10")
    case True
    then show ?thesis by (subst (1 2) toString_radix.simps) simp
  next
    case False
    then have "toString_radix 10 (n div 10) \<noteq> []
        \<and> set (toString_radix 10 (n div 10)) \<subseteq> digit_char ` {..<10}"
      using "1" by simp
    with False show ?thesis by (subst (1 2) toString_radix.simps) simp
  qed
qed

lemma digits_value_snoc:
  "digits_value r (z @ [c]) = digits_value r z * r + the (digit_value c)"
  by (simp add: digits_value_def)

lemma digits_value_toString_radix: "digits_value 10 (toString_radix 10 n) = n"
proof (induction "10::nat" n rule: toString_radix.induct)
  case (1 n)
  show ?case
  proof (cases "n < 10")
    case True
    then show ?thesis
      by (subst toString_radix.simps) (simp add: digits_value_def decimal_digit(1))
  next
    case False
    then have "digits_value 10 (toString_radix 10 (n div 10)) = n div 10"
      using "1" by simp
    with False show ?thesis
      by (subst toString_radix.simps) (simp add: digits_value_snoc decimal_digit(1))
  qed
qed

lemma parseInt_decimal:
  assumes "s \<noteq> []" and "set s \<subseteq> digit_char ` {..<10}"
  shows "parseInt s = Some (int (digits_value 10 s))"
proof -
  obtain c cs where s: "s = c # cs"
    using assms(1) by (cases s) auto
  have digit: "\<And>x. x \<in> set s \<Longrightarrow> \<exists>d<10. x = digit_char d"
    using assms(2) by auto
  obtain d where d: "d < 10" "c = digit_char d"
    using digit [of c] s by auto
  have ws: "dropWhile isWhiteSpace s = s"
    using s d decimal_digit(2) by simp
  have sign: "hd s \<noteq> CHR ''-''" "hd s \<noteq> CHR ''+''"
    using s d decimal_digit(3,4) by simp_all
  have hex: "take 2 s \<noteq> ''0x''" "take 2 s \<noteq> ''0X''"
  proof -
    show "take 2 s \<noteq> ''0x''"
    proof (cases cs)
      case Nil
      then show ?thesis using s by simp
    next
      case (Cons c2 rest)
      then obtain d2 where "d2 < 10" "c2 = digit_char d2"
        using digit [of c2] s by auto
      then show ?thesis using s Cons decimal_digit(5) by auto
    qed
    show "take 2 s \<noteq> ''0X''"
    proof (cases cs)
      case Nil
      then show ?thesis using s by simp
    next
      case (Cons c2 rest)
      then obtain d2 where "d2 < 10" "c2 = digit_char d2"
        using digit [of c2] s by auto
      then show ?thesis using s Cons decimal_digit(6) by auto
    qed
  qed
  have "isDigit 10 x" if x: "x \<in> set s" for x
  proof -
    obtain dx where "dx < 10" "x = digit_char dx"
      using digit [OF x] by auto
    then show ?thesis by (simp add: isDigit_def decimal_digit(1))
  qed
  then have all: "takeWhile (isDigit 10) s = s"
    by (simp add: takeWhile_eq_all_conv)
  show ?thesis
    using assms(1) by (simp add: parseInt_def Let_def ws sign hex all)
qed

lemma parseInt_toString: "parseInt (toString (int k)) = Some (int k)"
  using parseInt_decimal [of "toString_radix 10 k"] toString_radix_decimal [of k]
  by (simp add: toString_def digits_value_toString_radix)

lemma toString_not_empty: "toString (int k) \<noteq> []"
  using toString_radix_decimal [of k] by (simp add: toString_def)

lemma findIndex_None: "findIndex p xs = None \<longleftrightarrow> (\<forall>x \<in> set xs. \<not> p x)"
  by (induction xs) auto

lemma findIndex_Some: "findIndex p xs = Some k \<Longrightarrow> k < length xs \<and> p (xs ! k)"
  by (induction xs arbitrary: k) (auto split: if_splits)


lemma ui_view_refreshCapacities_loop [simp]:
  "ui_view (snd (refreshCapacities_loop ids acc st)) = ui_view st"
proof (induction ids arbitrary: acc st)
  case Nil
  show ?case by simp
next
  case (Cons subscriptionId rest)
  obtain r st1 where call: "getCapacitiesForSubscription subscriptionId st = (r, st1)"
    by (cases "getCapacitiesForSubscription subscriptionId st")
  have "ui_view st1 = ui_view st"
    using ui_view_getCapacitiesForSubscription [of subscriptionId st] call by simp
  then show ?case
    using call Cons.IH by (cases r) simp_all
qed

lemma onCapacitySelectionChange_selected:
  assumes "capacitySelect_value st \<noteq> []"
    and "array_get (capacities st) (parseInt (capacitySelect_value st)) = Some c"
  shows "fst (onCapacitySelectionChange st) = Inr ()"
    and "capacities (snd (onCapacitySelectionChange st)) = capacities st"
    and "capacitySelect_value (snd (onCapacitySelectionChange st)) = capacitySelect_value st"
  using assms by (simp_all add: onCapacitySelectionChange_def Let_def log_def)

lemma unique_empty [simp]: "unique xs = [] \<longleftrightarrow> xs = []"
  by (simp add: unique_def)

lemma array_get_nat: "k < length xs \<Longrightarrow> array_get xs (Some (int k)) = Some (xs ! k)"
  by (simp add: array_get_def)

lemma refreshCapacities_known_scopes:
  assumes tok: "truthy (accessToken st)"
    and idle: "loadingIndicator_display st \<noteq> ''block''"
    and sel: "array_get (capacities st) (parseInt (capacitySelect_value st)) = Some selected"
    and ident: "truthy (e_id selected)"
    and fresh: "refreshed = fst (refreshCapacities_loop (unique (map e_subscriptionId (capacities st))) []
                      (st\<lparr>capacitySelect_disabled := True, refreshButton_disabled := True,
                          skuContainer_display := ''none''\<rparr>))"
  shows "capacities (refreshCapacities st) = refreshed"
    and "findIndex (\<lambda>c. e_id c = e_id selected) refreshed = None
         \<Longrightarrow> capacitySelect_value (refreshCapacities st) = []"
    and "findIndex (\<lambda>c. e_id c = e_id selected) refreshed = Some k
         \<Longrightarrow> capacitySelect_value (refreshCapacities st) = toString (int k)"
proof -
  let ?st1 = "st\<lparr>capacitySelect_disabled := True, refreshButton_disabled := True,
                  skuContainer_display := ''none''\<rparr>"
  let ?ids = "unique (map e_subscriptionId (capacities st))"
  let ?st2 = "snd (refreshCapacities_loop ?ids [] ?st1)"
  let ?st3 = "populateCapacityDropdown (?st2\<lparr>capacities := refreshed\<rparr>)"
  have chosen: "capacitySelect_value st \<noteq> []"
    using sel by (auto simp: array_get_def parseInt_def Let_def)
  have known: "capacities st \<noteq> []"
    using sel by (auto simp: array_get_def split: option.splits if_splits)
  have selected: "(case array_get (capacities st) (parseInt (capacitySelect_value st)) of
                     None \<Rightarrow> None | Some c \<Rightarrow> e_id c) = e_id selected"
    using sel by simp
  have eq: "refreshCapacities st
      = (case findIndex (\<lambda>c. e_id c = e_id selected) (capacities ?st3) of
           None \<Rightarrow> ?st3
         | Some newIndex \<Rightarrow>
             (case onCapacitySelectionChange
                     (?st3\<lparr>capacitySelect_value := toString (int newIndex)\<rparr>) of
                (Inr u, s) \<Rightarrow> s
              | (Inl error, s) \<Rightarrow> logError ''Failed to refresh capacities'' (Some error) s))
          \<lparr>capacitySelect_disabled := False, refreshButton_disabled := False\<rparr>"
    using tok idle chosen known ident unfolding fresh
    by (simp add: refreshCapacities_def Let_def split_beta selected)
  have c3: "capacities ?st3 = refreshed"
    by (simp add: populateCapacityDropdown_def)
  have v3: "capacitySelect_value ?st3 = []"
    by (simp add: populateCapacityDropdown_def)
  {
    assume none: "findIndex (\<lambda>c. e_id c = e_id selected) refreshed = None"
    then have "refreshCapacities st
        = ?st3\<lparr>capacitySelect_disabled := False, refreshButton_disabled := False\<rparr>"
      using eq c3 by simp
    then have "capacities (refreshCapacities st) = refreshed
        \<and> capacitySelect_value (refreshCapacities st) = []"
      using c3 v3 by simp
  }
  note absent = this
  {
    fix j
    assume some: "findIndex (\<lambda>c. e_id c = e_id selected) refreshed = Some j"
    let ?st4 = "?st3\<lparr>capacitySelect_value := toString (int j)\<rparr>"
    have j: "j < length refreshed"
      using findIndex_Some [OF some] by simp
    have get: "array_get (capacities ?st4) (parseInt (capacitySelect_value ?st4))
                 = Some (refreshed ! j)"
      using j c3 by (simp add: parseInt_toString array_get_nat)
    have ne: "capacitySelect_value ?st4 \<noteq> []"
      by (simp add: toString_not_empty)
    note change = onCapacitySelectionChange_selected [OF ne get]
    have "refreshCapacities st
        = (snd (onCapacitySelectionChange ?st4))
            \<lparr>capacitySelect_disabled := False, refreshButton_disabled := False\<rparr>"
      using eq c3 some change(1) by (simp add: split_beta)
    then have "capacities (refreshCapacities st) = refreshed
        \<and> capacitySelect_value (refreshCapacities st) = toString (int j)"
      using change(2,3) c3 by simp
  }
  note present = this
  show "capacities (refreshCapacities st) = refreshed"
    using absent present by (cases "findIndex (\<lambda>c. e_id c = e_id selected) refreshed") auto
  show "findIndex (\<lambda>c. e_id c = e_id selected) refreshed = None
         \<Longrightarrow> capacitySelect_value (refreshCapacities st) = []"
    using absent by simp
  show "findIndex (\<lambda>c. e_id c = e_id selected) refreshed = Some k
         \<Longrightarrow> capacitySelect_value (refreshCapacities st) = toString (int k)"
    using present by simp
qed

text \<open>
  With a token held: a refresh that runs while the loading indicator is not shown, and
  with a selected capacity whose id is set, re-queries the subscriptions of the listed
  capacities and stores what they return. If no entry of the new list has the id of the
  previously selected capacity, the dropdown is reset to its empty option; if some entry
  has it, the dropdown value is the index of an entry with that id, whatever its position.
\<close>

theorem selection_continuity:
  "truthy (accessToken st) \<Longrightarrow>
   loadingIndicator_display st \<noteq> ''block'' \<Longrightarrow>
   array_get (capacities st) (parseInt (capacitySelect_value st)) = Some selected \<Longrightarrow>
   truthy (e_id selected) \<Longrightarrow>
   capacities (refreshCapacities st)
     = fst (refreshCapacities_loop (unique (map e_subscriptionId (capacities st))) []
              (st\<lparr>capacitySelect_disabled := True, refreshButton_disabled := True,
                  skuContainer_display := ''none''\<rparr>))
   \<and> (e_id selected \<notin> e_id ` set (capacities (refreshCapacities st))
        \<longrightarrow> capacitySelect_value (refreshCapacities st) = [])
   \<and> (e_id selected \<in> e_id ` set (capacities (refreshCapacities st))
        \<longrightarrow> (\<exists>c. array_get (capacities (refreshCapacities st))
                      (parseInt (capacitySelect_value (refreshCapacities st))) = Some c
                 \<and> e_id c = e_id selected))"
proof -
  assume a: "truthy (accessToken st)" "loadingIndicator_display st \<noteq> ''block''"
    "array_get (capacities st) (parseInt (capacitySelect_value st)) = Some selected"
    "truthy (e_id selected)"
  define refreshed where
    "refreshed = fst (refreshCapacities_loop (unique (map e_subscriptionId (capacities st))) []
              (st\<lparr>capacitySelect_disabled := True, refreshButton_disabled := True,
                  skuContainer_display := ''none''\<rparr>))"
  note r = refreshCapacities_known_scopes [OF a refreshed_def]
  have absent: "capacitySelect_value (refreshCapacities st) = []"
    if "e_id selected \<notin> e_id ` set (capacities (refreshCapacities st))"
  proof -
    have "\<forall>c \<in> set refreshed. e_id c \<noteq> e_id selected"
      using that r(1) by (metis image_eqI)
    then have "findIndex (\<lambda>c. e_id c = e_id selected) refreshed = None"
      by (simp add: findIndex_None)
    then show ?thesis by (rule r(2))
  qed
  have present: "\<exists>c. array_get (capacities (refreshCapacities st))
                      (parseInt (capacitySelect_value (refreshCapacities st))) = Some c
                 \<and> e_id c = e_id selected"
    if "e_id selected \<in> e_id ` set (capacities (refreshCapacities st))"
  proof -
    have "\<exists>c \<in> set refreshed. e_id c = e_id selected"
      using that r(1) by (metis imageE)
    then have "findIndex (\<lambda>c. e_id c = e_id selected) refreshed \<noteq> None"
      by (simp add: findIndex_None)
    then obtain k where k: "findIndex (\<lambda>c. e_id c = e_id selected) refreshed = Some k"
      by auto
    have "array_get (capacities (refreshCapacities st))
            (parseInt (capacitySelect_value (refreshCapacities st))) = Some (refreshed ! k)"
      using findIndex_Some [OF k] r(1) r(3) [OF k] by (simp add: parseInt_toString array_get_nat)
    then show ?thesis
      using findIndex_Some [OF k] by simp
  qed
  show ?thesis
    using r(1) absent present unfolding refreshed_def by blast
qed

lemma known_scopes_ABC:
  "unique [e_subscriptionId capacity_A, e_subscriptionId capacity_B, e_subscriptionId capacity_C]
     = [''s1'']"
  by (simp add: unique_def capacity_A_def capacity_B_def capacity_C_def)

lemma popup_ABC_capacities [simp]:
  "capacities (popup_ABC net idp parse) = [capacity_A, capacity_B, capacity_C]"
  "capacitySelect_value (popup_ABC net idp parse) = ''1''"
  "loadingIndicator_display (popup_ABC net idp parse) = ''none''"
  by (simp_all add: popup_ABC_def new_manager_def)

lemma refreshed_AC:
  "fst (refreshCapacities_loop [''s1''] []
        ((popup_ABC (answering ''AC'') idp refresh_parse)
           \<lparr>capacitySelect_disabled := True, refreshButton_disabled := True,
            skuContainer_display := ''none''\<rparr>))
   = [annotate ''s1'' capacity_A, annotate ''s1'' capacity_C]"
  by (simp add: getCapacitiesForSubscription_def makeApiCall_unfold
        makeApiCall_continue_def split_beta truthy_def answering_def response_ok_def
        parse_text_def refresh_parse_def value_or_empty_def json_value_def)

lemma refreshed_CAB:
  "fst (refreshCapacities_loop [''s1''] []
        ((popup_ABC (answering ''CAB'') idp refresh_parse)
           \<lparr>capacitySelect_disabled := True, refreshButton_disabled := True,
            skuContainer_display := ''none''\<rparr>))
   = [annotate ''s1'' capacity_C, annotate ''s1'' capacity_A, annotate ''s1'' capacity_B]"
  by (simp add: getCapacitiesForSubscription_def makeApiCall_unfold
        makeApiCall_continue_def split_beta truthy_def answering_def response_ok_def
        parse_text_def refresh_parse_def value_or_empty_def json_value_def)

lemma annotated_ids:
  "e_id (annotate ''s1'' capacity_A) = Some ''/subscriptions/s1/capacities/A''"
  "e_id (annotate ''s1'' capacity_B) = Some ''/subscriptions/s1/capacities/B''"
  "e_id (annotate ''s1'' capacity_C) = Some ''/subscriptions/s1/capacities/C''"
  "e_id capacity_B = Some ''/subscriptions/s1/capacities/B''"
  by (simp_all add: annotate_def capacity_A_def capacity_B_def capacity_C_def)

theorem selection_continuity_witness:
  "capacities (refreshCapacities (popup_ABC (answering ''AC'') forging_identity refresh_parse))
     = [annotate ''s1'' capacity_A, annotate ''s1'' capacity_C]
   \<and> capacitySelect_value
       (refreshCapacities (popup_ABC (answering ''AC'') forging_identity refresh_parse)) = []
   \<and> capacities (refreshCapacities (popup_ABC (answering ''CAB'') forging_identity refresh_parse))
     = [annotate ''s1'' capacity_C, annotate ''s1'' capacity_A, annotate ''s1'' capacity_B]
   \<and> (\<exists>c. array_get
             (capacities (refreshCapacities
                (popup_ABC (answering ''CAB'') forging_identity refresh_parse)))
             (parseInt (capacitySelect_value (refreshCapacities
                (popup_ABC (answering ''CAB'') forging_identity refresh_parse)))) = Some c
          \<and> e_id c = e_id capacity_B)"
proof -
  have t: "truthy (accessToken (popup_ABC net forging_identity refresh_parse))" for net
    by (simp add: truthy_def)
  have idle: "loadingIndicator_display (popup_ABC net forging_identity refresh_parse) \<noteq> ''block''"
    for net by simp
  have b: "truthy (e_id capacity_B)"
    by (simp add: truthy_def capacity_B_def)
  note AC = selection_continuity [OF t idle popup_ABC_selected b, of "answering ''AC''"]
  note CAB = selection_continuity [OF t idle popup_ABC_selected b, of "answering ''CAB''"]
  have cAC: "capacities (refreshCapacities (popup_ABC (answering ''AC'') forging_identity refresh_parse))
     = [annotate ''s1'' capacity_A, annotate ''s1'' capacity_C]"
    using AC by (simp add: known_scopes_ABC refreshed_AC del: refreshCapacities_loop.simps)
  have cCAB: "capacities (refreshCapacities (popup_ABC (answering ''CAB'') forging_identity refresh_parse))
     = [annotate ''s1'' capacity_C, annotate ''s1'' capacity_A, annotate ''s1'' capacity_B]"
    using CAB by (simp add: known_scopes_ABC refreshed_CAB del: refreshCapacities_loop.simps)
  have "capacitySelect_value
       (refreshCapacities (popup_ABC (answering ''AC'') forging_identity refresh_parse)) = []"
    using AC [THEN conjunct2] by (simp add: cAC annotated_ids)
  moreover have "\<exists>c. array_get
             (capacities (refreshCapacities
                (popup_ABC (answering ''CAB'') forging_identity refresh_parse)))
             (parseInt (capacitySelect_value (refreshCapacities
                (popup_ABC (answering ''CAB'') forging_identity refresh_parse)))) = Some c
          \<and> e_id c = e_id capacity_B"
    using CAB [THEN conjunct2] by (simp add: cCAB annotated_ids)
  ultimately show ?thesis
    using cAC cCAB by simp
qed

text \<open>
  Without a token \<open>refreshCapacities\<close> hands over to \<open>loadCapacities\<close>, which
  empties the list and signs in. When the sign-in and the listing of the subscriptions
  succeed, it rebuilds the list and the dropdown; when the sign-in fails, it stops with
  the list empty and the dropdown as it was.
\<close>

lemma loadCapacities_after_login:
  assumes "\<not> truthy (accessToken st)"
    and "fst (authenticate (log ''No authentication token available. Please authenticate first.''
                             (discovery_start st))) = Inr tok"
    and "fst (getSubscriptions
                (snd (authenticate
                        (log ''No authentication token available. Please authenticate first.''
                           (discovery_start st))))) = Inr subscriptions"
  shows "capacitySelect_value (loadCapacities st) = []"
    and "capacities (loadCapacities st)
           = capacities
               (loadCapacities_loop subscriptions
                  (snd (getSubscriptions
                          (snd (authenticate
                                  (log ''No authentication token available. Please authenticate first.''
                                     (discovery_start st)))))))"
proof -
  let ?s0 = "log ''No authentication token available. Please authenticate first.''
               (discovery_start st)"
  let ?st3 = "snd (getSubscriptions (snd (authenticate ?s0)))"
  have none: "\<not> truthy (accessToken (discovery_start st))"
    using assms(1) by simp
  have load: "loadCapacities st
      = showLoading False
          ((log (''Loaded ''
                 @ toString (int (length (capacities
                      (populateCapacityDropdown (loadCapacities_loop subscriptions ?st3)))))
                 @ '' Fabric capacities'')
              (populateCapacityDropdown (loadCapacities_loop subscriptions ?st3)))
             \<lparr>initialLoadComplete := True\<rparr>)"
    using none assms(2,3)
    by (simp add: loadCapacities_def Let_def split_beta discovery_start_def [symmetric])
  show "capacitySelect_value (loadCapacities st) = []"
    by (simp add: load showLoading_def log_def populateCapacityDropdown_def)
  show "capacities (loadCapacities st) = capacities (loadCapacities_loop subscriptions ?st3)"
    by (simp add: load showLoading_def log_def populateCapacityDropdown_def)
qed

lemma loadCapacities_sign_in_fails:
  assumes "\<not> truthy (accessToken st)"
    and "fst (authenticate (log ''No authentication token available. Please authenticate first.''
                             (discovery_start st))) = Inl e"
  shows "capacities (loadCapacities st) = []"
    and "capacitySelect_value (loadCapacities st) = capacitySelect_value st"
proof -
  let ?s0 = "log ''No authentication token available. Please authenticate first.''
               (discovery_start st)"
  have none: "\<not> truthy (accessToken (discovery_start st))"
    using assms(1) by simp
  have load: "loadCapacities st
      = showLoading False (logError ''Failed to load capacities'' (Some e) (snd (authenticate ?s0)))"
    using none assms(2)
    by (simp add: loadCapacities_def Let_def split_beta discovery_start_def [symmetric])
  have same: "capacities (snd (authenticate ?s0)) = capacities ?s0"
    "capacitySelect_value (snd (authenticate ?s0)) = capacitySelect_value ?s0"
    using ui_viewD [OF ui_view_authenticate [of ?s0]] by simp_all
  show "capacities (loadCapacities st) = []"
    using same(1) by (simp add: load showLoading_def logError_def log_def discovery_start_def)
  show "capacitySelect_value (loadCapacities st) = capacitySelect_value st"
    using same(2) by (simp add: load showLoading_def logError_def log_def discovery_start_def)
qed

lemma logged_out_ABC_fields [simp]:
  "accessToken logged_out_ABC = None"
  "capacities logged_out_ABC = [capacity_A, capacity_B, capacity_C]"
  "capacitySelect_value logged_out_ABC = ''1''"
  "identity logged_out_ABC = interactive_only_identity"
  "network logged_out_ABC = subscriptions_then ''ABC''"
  "JSON_parse logged_out_ABC = refresh_parse"
  "fetch_log logged_out_ABC = []"
  "storage_lastError logged_out_ABC = False"
  "local_storage logged_out_ABC = \<lparr>stored_accessToken = None, stored_tokenExpiry = None,
                                     stored_sessionInfo = None\<rparr>"
  by (simp_all add: logged_out_ABC_def popup_ABC_def new_manager_def)

lemma logged_out_ABC_start:
  "fetch_log (log ''No authentication token available. Please authenticate first.''
                (discovery_start logged_out_ABC)) = []"
  "network (log ''No authentication token available. Please authenticate first.''
              (discovery_start logged_out_ABC)) = subscriptions_then ''ABC''"
  "JSON_parse (log ''No authentication token available. Please authenticate first.''
                 (discovery_start logged_out_ABC)) = refresh_parse"
  "capacities (log ''No authentication token available. Please authenticate first.''
                 (discovery_start logged_out_ABC)) = []"
  by (simp_all add: discovery_start_def showLoading_def log_def)

lemma logged_out_ABC_login:
  "fst (authenticate (log ''No authentication token available. Please authenticate first.''
                        (discovery_start logged_out_ABC))) = Inr ''T1''"
  by (rule authenticate_echo) (simp_all add: discovery_start_def showLoading_def log_def)

lemma logged_out_ABC_logged_in:
  "accessToken (snd (authenticate
      (log ''No authentication token available. Please authenticate first.''
         (discovery_start logged_out_ABC)))) = Some ''T1''"
  "fetch_log (snd (authenticate
      (log ''No authentication token available. Please authenticate first.''
         (discovery_start logged_out_ABC))))
     = [\<lparr>req_url = graphUrl @ ''/v1.0/me'', req_method = ''GET'',
         req_authorization = ''Bearer T1'', req_body = None\<rparr>]"
  "network (snd (authenticate
      (log ''No authentication token available. Please authenticate first.''
         (discovery_start logged_out_ABC)))) = subscriptions_then ''ABC''"
  "JSON_parse (snd (authenticate
      (log ''No authentication token available. Please authenticate first.''
         (discovery_start logged_out_ABC)))) = refresh_parse"
  "capacities (snd (authenticate
      (log ''No authentication token available. Please authenticate first.''
         (discovery_start logged_out_ABC)))) = []"
proof -
  let ?s0 = "log ''No authentication token available. Please authenticate first.''
               (discovery_start logged_out_ABC)"
  have miss: "getCachedToken (storage_lastError ?s0) (now ?s0) (local_storage ?s0) = None"
    by (simp add: discovery_start_def showLoading_def log_def)
  note s0 = logged_out_ABC_start
  show "accessToken (snd (authenticate ?s0)) = Some ''T1''"
    by (rule authenticate_cache_miss(3) [OF miss logged_out_ABC_login])
  show "fetch_log (snd (authenticate ?s0))
          = [\<lparr>req_url = graphUrl @ ''/v1.0/me'', req_method = ''GET'',
              req_authorization = ''Bearer T1'', req_body = None\<rparr>]"
    using authenticate_cache_miss(1) [OF miss] s0(1) logged_out_ABC_login by simp
  show "network (snd (authenticate ?s0)) = subscriptions_then ''ABC''"
    using ui_viewD [OF ui_view_authenticate [of ?s0]] s0(2) by (simp only:)
  show "JSON_parse (snd (authenticate ?s0)) = refresh_parse"
    using ui_viewD [OF ui_view_authenticate [of ?s0]] s0(3) by (simp only:)
  show "capacities (snd (authenticate ?s0)) = []"
    using ui_viewD [OF ui_view_authenticate [of ?s0]] s0(4) by (simp only:)
qed

lemma logged_out_ABC_subscriptions:
  "fst (getSubscriptions (snd (authenticate
      (log ''No authentication token available. Please authenticate first.''
         (discovery_start logged_out_ABC))))) = Inr [example_subscription ''s1'']"
  by (simp add: getSubscriptions_def split_beta makeApiCall_unfold makeApiCall_continue_def
        logged_out_ABC_logged_in logged_out_ABC_start truthy_def subscriptions_then_def response_ok_def
        parse_text_def refresh_parse_def value_or_empty_def json_value_def first_request_def)

lemma logged_out_ABC_state:
  "snd (getSubscriptions (snd (authenticate
      (log ''No authentication token available. Please authenticate first.''
         (discovery_start logged_out_ABC)))))
   = after_first_request (baseUrl @ ''/subscriptions?api-version='' @ subscriptionApiVersion)
       ''GET'' None
       (snd (authenticate
          (log ''No authentication token available. Please authenticate first.''
             (discovery_start logged_out_ABC))))"
  by (rule getSubscriptions_state [where r = "\<lparr>r_status = 200, r_statusText = ''OK'', r_text = ''SUBS''\<rparr>"])
     (simp_all add: logged_out_ABC_logged_in logged_out_ABC_start truthy_def subscriptions_then_def
        response_ok_def first_request_def)

lemma logged_out_ABC_outcomes:
  "scope_outcomes [example_subscription ''s1'']
     (snd (getSubscriptions (snd (authenticate
        (log ''No authentication token available. Please authenticate first.''
           (discovery_start logged_out_ABC))))))
   = [Inr [annotate ''s1'' capacity_A, annotate ''s1'' capacity_B, annotate ''s1'' capacity_C]]"
  by (simp add: logged_out_ABC_state getCapacitiesForSubscription_def makeApiCall_unfold
        makeApiCall_continue_def split_beta truthy_def subscriptions_then_def response_ok_def
        parse_text_def refresh_parse_def value_or_empty_def json_value_def first_request_def
        example_subscription_def logged_out_ABC_logged_in logged_out_ABC_start)

text \<open>
  C6. A refresh is to select again the entry that carries the id of the capacity selected
  before. \<open>refreshCapacities\<close> does so on its path with a token, and not on its path
  without one: with \<open>B\<close> selected in \<open>[A, B, C]\<close> and the token dropped by a failed
  renewal, the refresh signs in again and lists \<open>[A, B, C]\<close> afresh, its second entry
  carrying the id of \<open>B\<close>, and the dropdown is left on its empty option.
\<close>

theorem selection_lost_without_token:
  "array_get (capacities logged_out_ABC) (parseInt (capacitySelect_value logged_out_ABC))
     = Some capacity_B
   \<and> capacities (refreshCapacities logged_out_ABC)
     = [annotate ''s1'' capacity_A, annotate ''s1'' capacity_B, annotate ''s1'' capacity_C]
   \<and> e_id (annotate ''s1'' capacity_B) = e_id capacity_B
   \<and> capacitySelect_value (refreshCapacities logged_out_ABC) = []"
proof -
  have out: "\<not> truthy (accessToken logged_out_ABC)"
    by (simp add: truthy_def)
  have refresh: "refreshCapacities logged_out_ABC = loadCapacities logged_out_ABC"
    using out by (simp add: refreshCapacities_def)
  let ?st3 = "snd (getSubscriptions (snd (authenticate
        (log ''No authentication token available. Please authenticate first.''
           (discovery_start logged_out_ABC)))))"
  have empty: "capacities ?st3 = []"
    by (simp add: logged_out_ABC_state after_first_request_eq logged_out_ABC_logged_in logged_out_ABC_start)
  have "capacities (loadCapacities logged_out_ABC)
          = capacities (loadCapacities_loop [example_subscription ''s1''] ?st3)"
    by (rule loadCapacities_after_login(2)
              [OF out logged_out_ABC_login logged_out_ABC_subscriptions])
  also have "\<dots> = capacities ?st3
                    @ concat (map found_in (scope_outcomes [example_subscription ''s1''] ?st3))"
    by (rule capacities_loadCapacities_loop)
  also have "\<dots> = [annotate ''s1'' capacity_A, annotate ''s1'' capacity_B,
                     annotate ''s1'' capacity_C]"
    unfolding logged_out_ABC_outcomes empty by (simp add: found_in_def)
  finally have "capacities (loadCapacities logged_out_ABC)
     = [annotate ''s1'' capacity_A, annotate ''s1'' capacity_B, annotate ''s1'' capacity_C]" .
  moreover have "capacitySelect_value (loadCapacities logged_out_ABC) = []"
    by (rule loadCapacities_after_login(1) [OF out logged_out_ABC_login logged_out_ABC_subscriptions])
  moreover have "array_get (capacities logged_out_ABC)
                   (parseInt (capacitySelect_value logged_out_ABC)) = Some capacity_B"
    by (simp add: parseInt_1 array_get_def)
  ultimately show ?thesis
    by (simp add: refresh annotated_ids)
qed

text \<open>
  When the sign-in of that refresh fails instead, the list is left empty and the
  dropdown keeps the index of \<open>B\<close>.
\<close>

lemma authenticate_refused:
  assumes "identity st = refusing_identity"
    and "getCachedToken (storage_lastError st) (now st) (local_storage st) = None"
  shows "fst (authenticate st) = Inl (LastError ''The user did not approve access.'')"
proof -
  have "identity (showLoading True (log ''Authenticating with Azure AD...'' st))
          = refusing_identity"
    using assms(1) by simp
  then have "fst (performOAuth2Flow (showLoading True (log ''Authenticating with Azure AD...'' st)))
     = Inl (LastError ''The user did not approve access.'')"
    by (simp add: performOAuth2Flow_def attemptOAuth2WithScope_def split_beta
          launchWebAuthFlow_def refusing_identity_def)
  then show ?thesis
    by (simp add: authenticate_cache_miss_eq [OF assms(2)] split_beta)
qed

lemma stale_selection_when_sign_in_fails:
  "capacities (refreshCapacities
                 ((popup_ABC no_network refusing_identity no_parse)\<lparr>accessToken := None\<rparr>)) = []
   \<and> capacitySelect_value
        (refreshCapacities
           ((popup_ABC no_network refusing_identity no_parse)\<lparr>accessToken := None\<rparr>)) = ''1''"
proof -
  let ?st = "(popup_ABC no_network refusing_identity no_parse)\<lparr>accessToken := None\<rparr>"
  have out: "\<not> truthy (accessToken ?st)"
    by (simp add: truthy_def)
  have refresh: "refreshCapacities ?st = loadCapacities ?st"
    using out by (simp add: refreshCapacities_def)
  have refused: "fst (authenticate
                        (log ''No authentication token available. Please authenticate first.''
                           (discovery_start ?st)))
                   = Inl (LastError ''The user did not approve access.'')"
    by (rule authenticate_refused)
       (simp_all add: discovery_start_def showLoading_def log_def popup_ABC_def new_manager_def)
  show ?thesis
    using loadCapacities_sign_in_fails [OF out refused] by (simp add: refresh)
qed

subsection \<open>Pending operations\<close>

lemma performCapacityOperation_begin_selected:
  assumes "capacitySelect_value st \<noteq> []"
    and "array_get (capacities st) (parseInt (capacitySelect_value st)) = Some capacity"
    and "truthy (accessToken st)"
  shows "performCapacityOperation_begin ''resume'' ''Starting'' st
           = AwaitingFetch capacity (resume_request capacity st) (length (fetch_log st))
               ((log (''Starting capacity '' @ e_name capacity @ ''...'') st)
                  \<lparr>startButton_disabled := True, stopButton_disabled := True,
                   refreshButton_disabled := True,
                   fetch_log := fetch_log st @ [resume_request capacity st]\<rparr>)"
  using assms
  by (simp add: performCapacityOperation_begin_def Let_def setButtonsEnabled_def log_def
        fetch_issue_def resume_request_def)

lemma click_startButton_enabled:
  assumes "\<not> startButton_disabled st"
    and "capacitySelect_value st \<noteq> []"
    and "array_get (capacities st) (parseInt (capacitySelect_value st)) = Some capacity"
    and "truthy (accessToken st)"
  shows "click_startButton (st, pending)
           = ((log (''Starting capacity '' @ e_name capacity @ ''...'') st)
                  \<lparr>startButton_disabled := True, stopButton_disabled := True,
                   refreshButton_disabled := True,
                   fetch_log := fetch_log st @ [resume_request capacity st]\<rparr>,
              pending @ [AwaitingFetch capacity (resume_request capacity st) (length (fetch_log st))
               ((log (''Starting capacity '' @ e_name capacity @ ''...'') st)
                  \<lparr>startButton_disabled := True, stopButton_disabled := True,
                   refreshButton_disabled := True,
                   fetch_log := fetch_log st @ [resume_request capacity st]\<rparr>)])"
  using assms(1) by (simp add: click_startButton_def performCapacityOperation_begin_selected [OF assms(2-4)])

lemma click_startButton_disabled:
  "startButton_disabled st \<Longrightarrow> click_startButton (st, pending) = (st, pending)"
  by (simp add: click_startButton_def)

text \<open>
  With a capacity selected, a token held and the start button enabled, two clicks on
  the start button in immediate succession send exactly one \<open>POST\<close> for \<open>resume\<close>:
  the first click disables the start, stop and refresh buttons before its request is
  sent, and the second click is not dispatched. One operation more is suspended, on the
  selected capacity.
\<close>

theorem single_pending_start:
  assumes "\<not> startButton_disabled st"
    and "capacitySelect_value st \<noteq> []"
    and "array_get (capacities st) (parseInt (capacitySelect_value st)) = Some capacity"
    and "truthy (accessToken st)"
  shows "click_startButton (click_startButton (st, pending)) = click_startButton (st, pending)
       \<and> fetch_log (fst (click_startButton (click_startButton (st, pending))))
           = fetch_log st @ [resume_request capacity st]
       \<and> map pending_capacity (snd (click_startButton (click_startButton (st, pending))))
           = map pending_capacity pending @ [Some capacity]
       \<and> startButton_disabled (fst (click_startButton (st, pending)))
       \<and> stopButton_disabled (fst (click_startButton (st, pending)))
       \<and> refreshButton_disabled (fst (click_startButton (st, pending)))"
proof -
  note first = click_startButton_enabled [OF assms, of pending]
  have off: "startButton_disabled (fst (click_startButton (st, pending)))"
    "stopButton_disabled (fst (click_startButton (st, pending)))"
    "refreshButton_disabled (fst (click_startButton (st, pending)))"
    by (simp_all add: first)
  have second: "click_startButton (click_startButton (st, pending)) = click_startButton (st, pending)"
    using click_startButton_disabled [OF off(1), of "snd (click_startButton (st, pending))"]
    by simp
  show ?thesis
    unfolding second using off by (simp add: first)
qed

lemma popup_ABC_buttons [simp]:
  "startButton_disabled (popup_ABC net idp parse) = False"
  "capacitySelect_disabled (popup_ABC net idp parse) = False"
  by (simp_all add: popup_ABC_def new_manager_def)

lemma resume_request_B:
  "accessToken st = Some ''T0'' \<Longrightarrow>
   resume_request capacity_B st
     = \<lparr>req_url = baseUrl @ ''/subscriptions/s1/capacities/B/resume?api-version='' @ fabricApiVersion,
        req_method = ''POST'', req_authorization = ''Bearer T0'', req_body = None\<rparr>"
  by (simp add: resume_request_def capacity_B_def str_of_def)

theorem single_pending_start_witness:
  "fetch_log (fst (click_startButton
                     (click_startButton (popup_ABC no_network forging_identity no_parse, []))))
     = [\<lparr>req_url = baseUrl @ ''/subscriptions/s1/capacities/B/resume?api-version=''
                    @ fabricApiVersion,
         req_method = ''POST'', req_authorization = ''Bearer T0'', req_body = None\<rparr>]
   \<and> map pending_capacity
         (snd (click_startButton
                 (click_startButton (popup_ABC no_network forging_identity no_parse, []))))
     = [Some capacity_B]"
proof -
  have t: "truthy (accessToken (popup_ABC no_network forging_identity no_parse))"
    by (simp add: truthy_def)
  have e: "\<not> startButton_disabled (popup_ABC no_network forging_identity no_parse)"
    by simp
  have v: "capacitySelect_value (popup_ABC no_network forging_identity no_parse) \<noteq> []"
    by simp
  show ?thesis
    using single_pending_start [OF e v popup_ABC_selected t, of "[]"]
    by (auto simp: resume_request_B)
qed

text \<open>
  The controller keeps no record of the operations that are suspended; the buttons alone
  hold a second request back, and \<open>onCapacitySelectionChange\<close> sets them from the state
  of the selected capacity.
\<close>

lemma parseInt_0: "parseInt ''0'' = Some 0"
  by (simp add: parseInt_def isWhiteSpace_def isDigit_def digit_value_def digits_value_def Let_def)

lemma options_ABC:
  "capacities st = [capacity_A, capacity_B, capacity_C] \<Longrightarrow>
   option_values st = [[], ''0'', ''1'', ''2'']"
  by (simp add: option_values_def upt_rec toString_def toString_radix.simps digit_char_def)

lemma started_B:
  "click_startButton (popup_ABC no_network forging_identity no_parse, [])
     = ((log ''Starting capacity B...'' (popup_ABC no_network forging_identity no_parse))
          \<lparr>startButton_disabled := True, stopButton_disabled := True,
           refreshButton_disabled := True,
           fetch_log := [resume_request capacity_B (popup_ABC no_network forging_identity no_parse)]\<rparr>,
        [AwaitingFetch capacity_B
           (resume_request capacity_B (popup_ABC no_network forging_identity no_parse)) 0
           ((log ''Starting capacity B...'' (popup_ABC no_network forging_identity no_parse))
              \<lparr>startButton_disabled := True, stopButton_disabled := True,
               refreshButton_disabled := True,
               fetch_log := [resume_request capacity_B
                               (popup_ABC no_network forging_identity no_parse)]\<rparr>)])"
proof -
  have t: "truthy (accessToken (popup_ABC no_network forging_identity no_parse))"
    by (simp add: truthy_def)
  have e: "\<not> startButton_disabled (popup_ABC no_network forging_identity no_parse)"
    by simp
  have v: "capacitySelect_value (popup_ABC no_network forging_identity no_parse) \<noteq> []"
    by simp
  show ?thesis
    using click_startButton_enabled [OF e v popup_ABC_selected t, of "[]"]
    by (simp add: capacity_B_def)
qed

lemma reselected_B:
  assumes "capacities st = [capacity_A, capacity_B, capacity_C]"
    and "capacitySelect_value st = ''1''" and "\<not> capacitySelect_disabled st"
  shows "\<not> startButton_disabled
            (fst (change_capacitySelect ''1'' (change_capacitySelect ''0'' (st, pending))))"
    and "capacitySelect_value
            (fst (change_capacitySelect ''1'' (change_capacitySelect ''0'' (st, pending)))) = ''1''"
    and "capacities
            (fst (change_capacitySelect ''1'' (change_capacitySelect ''0'' (st, pending))))
           = [capacity_A, capacity_B, capacity_C]"
    and "accessToken
            (fst (change_capacitySelect ''1'' (change_capacitySelect ''0'' (st, pending))))
           = accessToken st"
    and "fetch_log
            (fst (change_capacitySelect ''1'' (change_capacitySelect ''0'' (st, pending))))
           = fetch_log st"
    and "snd (change_capacitySelect ''1'' (change_capacitySelect ''0'' (st, pending))) = pending"
  using assms
  by (simp_all add: options_ABC change_capacitySelect_def onCapacitySelectionChange_def Let_def parseInt_0
        parseInt_1 array_get_def log_def or_else_def truthy_def capacity_A_def capacity_B_def)

text \<open>
  C4. At most one operation is to be pending on a capacity. The buttons that
  \<open>performCapacityOperation\<close> disables hold a second click back, but the dropdown
  stays enabled and \<open>onCapacitySelectionChange\<close> sets the buttons from the state of
  the selected capacity alone. \<open>B\<close> is started and the request is pending; the user
  picks \<open>A\<close> and then \<open>B\<close> again: the start button is enabled again, a second click
  sends a second \<open>POST\<close> for \<open>resume\<close> of \<open>B\<close>, and two operations on \<open>B\<close> are
  suspended at the same time.
\<close>

theorem second_start_while_pending:
  "fetch_log (fst (click_startButton
       (change_capacitySelect ''1''
          (change_capacitySelect ''0''
             (click_startButton (popup_ABC no_network forging_identity no_parse, []))))))
     = [\<lparr>req_url = baseUrl @ ''/subscriptions/s1/capacities/B/resume?api-version=''
                    @ fabricApiVersion,
         req_method = ''POST'', req_authorization = ''Bearer T0'', req_body = None\<rparr>,
        \<lparr>req_url = baseUrl @ ''/subscriptions/s1/capacities/B/resume?api-version=''
                    @ fabricApiVersion,
         req_method = ''POST'', req_authorization = ''Bearer T0'', req_body = None\<rparr>]
   \<and> map pending_capacity (snd (click_startButton
       (change_capacitySelect ''1''
          (change_capacitySelect ''0''
             (click_startButton (popup_ABC no_network forging_identity no_parse, []))))))
     = [Some capacity_B, Some capacity_B]"
proof -
  let ?st1 = "fst (click_startButton (popup_ABC no_network forging_identity no_parse, []))"
  let ?p1 = "snd (click_startButton (popup_ABC no_network forging_identity no_parse, []))"
  let ?ui = "change_capacitySelect ''1'' (change_capacitySelect ''0''
               (click_startButton (popup_ABC no_network forging_identity no_parse, [])))"
  have st1: "capacities ?st1 = [capacity_A, capacity_B, capacity_C]"
    "capacitySelect_value ?st1 = ''1''" "\<not> capacitySelect_disabled ?st1"
    "accessToken ?st1 = Some ''T0''"
    "fetch_log ?st1 = [resume_request capacity_B (popup_ABC no_network forging_identity no_parse)]"
    "map pending_capacity ?p1 = [Some capacity_B]"
    by (simp_all add: started_B log_def)
  note again = reselected_B [OF st1(1-3), of ?p1, unfolded prod.collapse]
  have t: "truthy (accessToken (fst ?ui))"
    by (simp add: again(4) st1(4) truthy_def)
  have v: "capacitySelect_value (fst ?ui) \<noteq> []"
    by (simp add: again(2))
  have b: "array_get (capacities (fst ?ui)) (parseInt (capacitySelect_value (fst ?ui)))
             = Some capacity_B"
    by (simp add: again(2,3) parseInt_1 array_get_def)
  have "click_startButton ?ui = click_startButton (fst ?ui, snd ?ui)"
    by simp
  also note click_startButton_enabled [OF again(1) v b t, of "snd ?ui"]
  finally have "fetch_log (fst (click_startButton ?ui))
                  = fetch_log (fst ?ui) @ [resume_request capacity_B (fst ?ui)]"
    and "map pending_capacity (snd (click_startButton ?ui))
           = map pending_capacity (snd ?ui) @ [Some capacity_B]"
    by simp_all
  then show ?thesis
    by (simp add: again(4,5,6) st1(4,5,6) resume_request_B)
qed

end
